theory Spec2Isabelle
  imports Main "HOL-Library.Word"
begin

unbundle bit_operations_syntax

section \<open>The token contracts of PolTokenLiqGen\<close>

text \<open>
  The repository generates and drives two Solidity contracts: the token template embedded in
  the contract generator script (\<^verbatim>\<open>CONTRACT_TEMPLATE\<close>) and \<^verbatim>\<open>BridgeUSDTToken\<close>. Both inherit
  \<^verbatim>\<open>ERC20Permit\<close>, \<^verbatim>\<open>Ownable\<close>, \<^verbatim>\<open>Pausable\<close> and \<^verbatim>\<open>ReentrancyGuard\<close> of OpenZeppelin
  Contracts 4.9 (the version pinned in \<^verbatim>\<open>package.json\<close>).

  A contract function is a function from the call environment and the storage to either
  a revert reason (\<open>Inl\<close>) or the storage after the call (\<open>Inr\<close>). A reverted call leaves
  the storage as it was; \<open>commit\<close> below writes that out. Events are not storage and are left
  out. Gas is not modelled. \<^verbatim>\<open>uint256\<close> is a 256-bit word, so unchecked arithmetic wraps;
  checked arithmetic (the Solidity 0.8 default) is written with its overflow test.
\<close>

subsection \<open>Values, environment, revert reasons\<close>

type_synonym address = "160 word"
type_synonym uint256 = "256 word"
type_synonym uint8 = "8 word"
type_synonym bytes32 = "256 word"
type_synonym bytes = "8 word list"

datatype error =
    Ownable_caller_is_not_the_owner
  | Ownable_new_owner_is_the_zero_address
  | Pausable_paused
  | Pausable_not_paused
  | ERC20_transfer_from_the_zero_address
  | ERC20_transfer_to_the_zero_address
  | ERC20_transfer_amount_exceeds_balance
  | ERC20_mint_to_the_zero_address
  | ERC20_burn_from_the_zero_address
  | ERC20_burn_amount_exceeds_balance
  | ERC20_approve_from_the_zero_address
  | ERC20_approve_to_the_zero_address
  | ERC20_insufficient_allowance
  | ERC20_decreased_allowance_below_zero
  | ERC20Permit_expired_deadline
  | ERC20Permit_invalid_signature
  | Panic_arithmetic_overflow
  | Panic_array_out_of_bounds
  | Protocol_Account_is_excluded
  | Protocol_Invalid_pair_address
  | Protocol_Invalid_address
  | Protocol_Amount_exceeds_allowance
  | Protocol_Sender_excluded_from_protocol
  | Protocol_Trading_not_enabled
  | Protocol_Transaction_exceeds_limit
  | Protocol_Wallet_limit_exceeded
  | Protocol_Does_not_accept_MATIC
  | Security_No_penalties_to_pay
  | Security_Penalties_already_paid
  | Invalid_token_type
  | Token_transfer_failed
  | External_call_reverted

text \<open>
  The call environment: \<^verbatim>\<open>msg.sender\<close>, \<^verbatim>\<open>block.timestamp\<close> and the \<^verbatim>\<open>keccak256\<close>
  opcode. The hash is a parameter: nothing below depends on which function it is.
\<close>

record env =
  msg_sender :: address
  block_timestamp :: uint256
  keccak256 :: "bytes \<Rightarrow> bytes32"

text \<open>\<^verbatim>\<open>abi.encodePacked\<close>: big-endian bytes, 20 for an address, 32 for a \<^verbatim>\<open>uint256\<close>.\<close>

fun be_bytes :: "nat \<Rightarrow> nat \<Rightarrow> bytes" where
  "be_bytes 0 v = []"
| "be_bytes (Suc n) v = be_bytes n (v div 256) @ [of_nat (v mod 256)]"

definition enc_address :: "address \<Rightarrow> bytes" where
  "enc_address a = be_bytes 20 (unat a)"

definition enc_uint256 :: "uint256 \<Rightarrow> bytes" where
  "enc_uint256 v = be_bytes 32 (unat v)"

definition enc_uint8 :: "uint8 \<Rightarrow> bytes" where
  "enc_uint8 v = [v]"

text \<open>Checked \<^verbatim>\<open>uint256\<close> arithmetic: Panic(0x11) on overflow and underflow.\<close>

definition checked_add :: "uint256 \<Rightarrow> uint256 \<Rightarrow> error + uint256" where
  "checked_add a b = (if unat a + unat b < 2 ^ 256 then Inr (a + b) else Inl Panic_arithmetic_overflow)"

definition checked_sub :: "uint256 \<Rightarrow> uint256 \<Rightarrow> error + uint256" where
  "checked_sub a b = (if b \<le> a then Inr (a - b) else Inl Panic_arithmetic_overflow)"

definition checked_mul :: "uint256 \<Rightarrow> uint256 \<Rightarrow> error + uint256" where
  "checked_mul a b = (if unat a * unat b < 2 ^ 256 then Inr (a * b) else Inl Panic_arithmetic_overflow)"

text \<open>What a transaction leaves behind: the new storage, or on revert the old one.\<close>

definition commit :: "'s \<Rightarrow> error + 's \<Rightarrow> 's" where
  "commit s r = (case r of Inl e \<Rightarrow> s | Inr s' \<Rightarrow> s')"

definition reverts :: "error + 's \<Rightarrow> bool" where
  "reverts r = (case r of Inl e \<Rightarrow> True | Inr s' \<Rightarrow> False)"

subsection \<open>OpenZeppelin 4.9: ERC20, ERC20Permit, Ownable, Pausable\<close>

record erc20_state =
  balances :: "address \<Rightarrow> uint256"
  allowances :: "address \<Rightarrow> address \<Rightarrow> uint256"
  totalSupply :: uint256
  erc20_name :: string
  erc20_symbol :: string
  nonces :: "address \<Rightarrow> uint256"
  owner :: address
  paused :: bool

text \<open>\<^verbatim>\<open>ERC20._mint\<close>: the supply is added checked, the balance unchecked.\<close>

definition ERC20_mint_internal ::
  "address \<Rightarrow> uint256 \<Rightarrow> 'a erc20_state_scheme \<Rightarrow> error + 'a erc20_state_scheme" where
  "ERC20_mint_internal account amount s =
     (if account = 0 then Inl ERC20_mint_to_the_zero_address
      else case checked_add (totalSupply s) amount of
             Inl e \<Rightarrow> Inl e
           | Inr t \<Rightarrow> Inr (s\<lparr>totalSupply := t,
                            balances := (balances s)(account := balances s account + amount)\<rparr>))"

text \<open>\<^verbatim>\<open>ERC20._burn\<close>.\<close>

definition ERC20_burn_internal ::
  "address \<Rightarrow> uint256 \<Rightarrow> 'a erc20_state_scheme \<Rightarrow> error + 'a erc20_state_scheme" where
  "ERC20_burn_internal account amount s =
     (if account = 0 then Inl ERC20_burn_from_the_zero_address
      else if balances s account < amount then Inl ERC20_burn_amount_exceeds_balance
      else Inr (s\<lparr>balances := (balances s)(account := balances s account - amount),
                  totalSupply := totalSupply s - amount\<rparr>))"

text \<open>
  \<^verbatim>\<open>ERC20._transfer\<close> (the \<^verbatim>\<open>super._transfer\<close> of both contracts): the sender's balance is
  written first, then the recipient's is read and increased, both unchecked.
\<close>

definition ERC20_transfer_internal ::
  "address \<Rightarrow> address \<Rightarrow> uint256 \<Rightarrow> 'a erc20_state_scheme \<Rightarrow> error + 'a erc20_state_scheme" where
  "ERC20_transfer_internal from to amount s =
     (if from = 0 then Inl ERC20_transfer_from_the_zero_address
      else if to = 0 then Inl ERC20_transfer_to_the_zero_address
      else if balances s from < amount then Inl ERC20_transfer_amount_exceeds_balance
      else let b1 = (balances s)(from := balances s from - amount);
               b2 = b1(to := b1 to + amount)
           in Inr (s\<lparr>balances := b2\<rparr>))"

text \<open>\<^verbatim>\<open>ERC20._approve\<close> and \<^verbatim>\<open>ERC20._spendAllowance\<close>.\<close>

definition ERC20_approve_internal ::
  "address \<Rightarrow> address \<Rightarrow> uint256 \<Rightarrow> 'a erc20_state_scheme \<Rightarrow> error + 'a erc20_state_scheme" where
  "ERC20_approve_internal holder spender amount s =
     (if holder = 0 then Inl ERC20_approve_from_the_zero_address
      else if spender = 0 then Inl ERC20_approve_to_the_zero_address
      else Inr (s\<lparr>allowances := (allowances s)(holder := (allowances s holder)(spender := amount))\<rparr>))"

definition ERC20_spendAllowance_internal ::
  "address \<Rightarrow> address \<Rightarrow> uint256 \<Rightarrow> 'a erc20_state_scheme \<Rightarrow> error + 'a erc20_state_scheme" where
  "ERC20_spendAllowance_internal holder spender amount s =
     (let currentAllowance = allowances s holder spender in
      if currentAllowance \<noteq> - 1 then
        (if currentAllowance < amount then Inl ERC20_insufficient_allowance
         else ERC20_approve_internal holder spender (currentAllowance - amount) s)
      else Inr s)"

text \<open>The public allowance functions of ERC20, none of them overridden.\<close>

definition approve :: "env \<Rightarrow> address \<Rightarrow> uint256 \<Rightarrow> 'a erc20_state_scheme \<Rightarrow> error + 'a erc20_state_scheme" where
  "approve e spender amount s = ERC20_approve_internal (msg_sender e) spender amount s"

definition increaseAllowance ::
  "env \<Rightarrow> address \<Rightarrow> uint256 \<Rightarrow> 'a erc20_state_scheme \<Rightarrow> error + 'a erc20_state_scheme" where
  "increaseAllowance e spender addedValue s =
     (case checked_add (allowances s (msg_sender e) spender) addedValue of
        Inl err \<Rightarrow> Inl err
      | Inr v \<Rightarrow> ERC20_approve_internal (msg_sender e) spender v s)"

definition decreaseAllowance ::
  "env \<Rightarrow> address \<Rightarrow> uint256 \<Rightarrow> 'a erc20_state_scheme \<Rightarrow> error + 'a erc20_state_scheme" where
  "decreaseAllowance e spender subtractedValue s =
     (let currentAllowance = allowances s (msg_sender e) spender in
      if currentAllowance < subtractedValue then Inl ERC20_decreased_allowance_below_zero
      else ERC20_approve_internal (msg_sender e) spender (currentAllowance - subtractedValue) s)"

text \<open>
  \<^verbatim>\<open>ERC20Permit.permit\<close>. The typed-data hash and the ECDSA recovery are library code over
  the signature; the call carries their result, the recovered signer. The nonce is used
  (incremented unchecked) before the signature is compared.
\<close>

definition permit ::
  "env \<Rightarrow> address \<Rightarrow> address \<Rightarrow> uint256 \<Rightarrow> uint256 \<Rightarrow> address \<Rightarrow> 'a erc20_state_scheme
   \<Rightarrow> error + 'a erc20_state_scheme" where
  "permit e holder spender val deadline signer s =
     (if deadline < block_timestamp e then Inl ERC20Permit_expired_deadline
      else let s1 = s\<lparr>nonces := (nonces s)(holder := nonces s holder + 1)\<rparr> in
           if signer \<noteq> holder then Inl ERC20Permit_invalid_signature
           else ERC20_approve_internal holder spender val s1)"

text \<open>\<^verbatim>\<open>Ownable\<close>: \<^verbatim>\<open>onlyOwner\<close> compares \<^verbatim>\<open>owner()\<close> with \<^verbatim>\<open>_msgSender()\<close>.\<close>

definition renounceOwnership :: "env \<Rightarrow> 'a erc20_state_scheme \<Rightarrow> error + 'a erc20_state_scheme" where
  "renounceOwnership e s =
     (if owner s \<noteq> msg_sender e then Inl Ownable_caller_is_not_the_owner
      else Inr (s\<lparr>owner := 0\<rparr>))"

definition transferOwnership ::
  "env \<Rightarrow> address \<Rightarrow> 'a erc20_state_scheme \<Rightarrow> error + 'a erc20_state_scheme" where
  "transferOwnership e newOwner s =
     (if owner s \<noteq> msg_sender e then Inl Ownable_caller_is_not_the_owner
      else if newOwner = 0 then Inl Ownable_new_owner_is_the_zero_address
      else Inr (s\<lparr>owner := newOwner\<rparr>))"

text \<open>\<^verbatim>\<open>Pausable._pause\<close> is \<^verbatim>\<open>whenNotPaused\<close>, \<^verbatim>\<open>Pausable._unpause\<close> is \<^verbatim>\<open>whenPaused\<close>.\<close>

definition Pausable_pause_internal :: "'a erc20_state_scheme \<Rightarrow> error + 'a erc20_state_scheme" where
  "Pausable_pause_internal s = (if paused s then Inl Pausable_paused else Inr (s\<lparr>paused := True\<rparr>))"

definition Pausable_unpause_internal :: "'a erc20_state_scheme \<Rightarrow> error + 'a erc20_state_scheme" where
  "Pausable_unpause_internal s = (if \<not> paused s then Inl Pausable_not_paused else Inr (s\<lparr>paused := False\<rparr>))"

subsection \<open>State and functions that the two contracts have in common\<close>

text \<open>
  Both contracts declare these variables and define the functions of this subsection with
  the same bodies (they differ in the events they emit only).
\<close>

record protocol_state = erc20_state +
  usdtPair :: address
  protocolExclusions :: "address \<Rightarrow> bool"
  securityExemptions :: "address \<Rightarrow> bool"
  addressSecurityLevel :: "address \<Rightarrow> uint256"
  protocolActive :: bool
  tradingEnabled :: bool
  maxTransactionLimit :: uint256
  maxWalletLimit :: uint256

definition setPair ::
  "env \<Rightarrow> address \<Rightarrow> 'a protocol_state_scheme \<Rightarrow> error + 'a protocol_state_scheme" where
  "setPair e pair s =
     (if owner s \<noteq> msg_sender e then Inl Ownable_caller_is_not_the_owner
      else if pair = 0 then Inl Protocol_Invalid_pair_address
      else Inr (s\<lparr>usdtPair := pair, securityExemptions := (securityExemptions s)(pair := True)\<rparr>))"

text \<open>The loop of \<^verbatim>\<open>enhanceParticipantSecurity\<close>, from index 0 upwards.\<close>

fun exclude_all :: "address list \<Rightarrow> (address \<Rightarrow> bool) \<Rightarrow> (address \<Rightarrow> bool)" where
  "exclude_all [] x = x"
| "exclude_all (p # ps) x = exclude_all ps (x(p := True))"

definition enhanceParticipantSecurity ::
  "env \<Rightarrow> address list \<Rightarrow> 'a protocol_state_scheme \<Rightarrow> error + 'a protocol_state_scheme" where
  "enhanceParticipantSecurity e participants s =
     (if owner s \<noteq> msg_sender e then Inl Ownable_caller_is_not_the_owner
      else Inr (s\<lparr>protocolExclusions := exclude_all participants (protocolExclusions s)\<rparr>))"

definition setExempt ::
  "env \<Rightarrow> address \<Rightarrow> bool \<Rightarrow> 'a protocol_state_scheme \<Rightarrow> error + 'a protocol_state_scheme" where
  "setExempt e account status s =
     (if owner s \<noteq> msg_sender e then Inl Ownable_caller_is_not_the_owner
      else Inr (s\<lparr>securityExemptions := (securityExemptions s)(account := status)\<rparr>))"

definition setTradingStatus ::
  "env \<Rightarrow> bool \<Rightarrow> 'a protocol_state_scheme \<Rightarrow> error + 'a protocol_state_scheme" where
  "setTradingStatus e status s =
     (if owner s \<noteq> msg_sender e then Inl Ownable_caller_is_not_the_owner
      else Inr (s\<lparr>tradingEnabled := status\<rparr>))"

definition setMaxTransactionLimit ::
  "env \<Rightarrow> uint256 \<Rightarrow> 'a protocol_state_scheme \<Rightarrow> error + 'a protocol_state_scheme" where
  "setMaxTransactionLimit e amount s =
     (if owner s \<noteq> msg_sender e then Inl Ownable_caller_is_not_the_owner
      else Inr (s\<lparr>maxTransactionLimit := amount\<rparr>))"

definition setMaxWalletLimit ::
  "env \<Rightarrow> uint256 \<Rightarrow> 'a protocol_state_scheme \<Rightarrow> error + 'a protocol_state_scheme" where
  "setMaxWalletLimit e amount s =
     (if owner s \<noteq> msg_sender e then Inl Ownable_caller_is_not_the_owner
      else Inr (s\<lparr>maxWalletLimit := amount\<rparr>))"

definition pause :: "env \<Rightarrow> 'a protocol_state_scheme \<Rightarrow> error + 'a protocol_state_scheme" where
  "pause e s =
     (if owner s \<noteq> msg_sender e then Inl Ownable_caller_is_not_the_owner
      else Pausable_pause_internal s)"

definition unpause :: "env \<Rightarrow> 'a protocol_state_scheme \<Rightarrow> error + 'a protocol_state_scheme" where
  "unpause e s =
     (if owner s \<noteq> msg_sender e then Inl Ownable_caller_is_not_the_owner
      else Pausable_unpause_internal s)"

text \<open>
  The trading restrictions of both \<^verbatim>\<open>_transfer\<close> overrides, applied when neither address
  is exempt; \<^verbatim>\<open>balanceOf(to) + amount\<close> is a checked addition.
\<close>

definition tradingRestrictions ::
  "address \<Rightarrow> address \<Rightarrow> uint256 \<Rightarrow> 'a protocol_state_scheme \<Rightarrow> error + unit" where
  "tradingRestrictions from to amount s =
     (if \<not> securityExemptions s from \<and> \<not> securityExemptions s to then
        (if \<not> tradingEnabled s then Inl Protocol_Trading_not_enabled
         else if maxTransactionLimit s < amount then Inl Protocol_Transaction_exceeds_limit
         else case checked_add (balances s to) amount of
                Inl err \<Rightarrow> Inl err
              | Inr w \<Rightarrow> if maxWalletLimit s < w then Inl Protocol_Wallet_limit_exceeded else Inr ())
      else Inr ())"

subsection \<open>The token template (\<^verbatim>\<open>CONTRACT_TEMPLATE\<close> of the contract generator)\<close>

record ProtocolInteraction =
  interactionType :: uint8
  userAddress :: address
  metadata :: bytes32
  timestamp :: uint256

record token_state = protocol_state +
  protocolData :: "bytes32 \<Rightarrow> ProtocolInteraction"
  userInteractions :: "address \<Rightarrow> bytes32 list"
  totalInteractions :: uint256
  protocolVersion :: uint256
  lastProtocolUpdate :: uint256
  securityLevel :: uint256
  emergencyModeActive :: bool

text \<open>Storage before the constructor body runs: zeroes, and the declared initial values.\<close>

definition Token_initial :: "env \<Rightarrow> string \<Rightarrow> string \<Rightarrow> token_state" where
  "Token_initial e name_arg symbol_arg =
     \<lparr> balances = (\<lambda>a. 0), allowances = (\<lambda>a b. 0), totalSupply = 0,
       erc20_name = name_arg, erc20_symbol = symbol_arg, nonces = (\<lambda>a. 0),
       owner = msg_sender e, paused = False,
       usdtPair = 0, protocolExclusions = (\<lambda>a. False), securityExemptions = (\<lambda>a. False),
       addressSecurityLevel = (\<lambda>a. 0), protocolActive = True, tradingEnabled = False,
       maxTransactionLimit = 0, maxWalletLimit = 0,
       protocolData = (\<lambda>h. \<lparr>interactionType = 0, userAddress = 0, metadata = 0, timestamp = 0\<rparr>),
       userInteractions = (\<lambda>a. []), totalInteractions = 0, protocolVersion = 1,
       lastProtocolUpdate = 0, securityLevel = 1, emergencyModeActive = False \<rparr>"

definition Token_constructor :: "env \<Rightarrow> string \<Rightarrow> string \<Rightarrow> uint256 \<Rightarrow> error + token_state" where
  "Token_constructor e name_arg symbol_arg initialSupply =
     (case ERC20_mint_internal (msg_sender e) initialSupply (Token_initial e name_arg symbol_arg) of
        Inl err \<Rightarrow> Inl err
      | Inr s \<Rightarrow> Inr (s\<lparr>securityExemptions := (securityExemptions s)(msg_sender e := True),
                        maxTransactionLimit := initialSupply,
                        maxWalletLimit := initialSupply,
                        lastProtocolUpdate := block_timestamp e\<rparr>))"

definition Token_recordInteraction ::
  "env \<Rightarrow> uint8 \<Rightarrow> address \<Rightarrow> bytes32 \<Rightarrow> token_state \<Rightarrow> error + token_state" where
  "Token_recordInteraction e itype user meta s =
     (let interactionId = keccak256 e (enc_address user @ enc_uint8 itype @ enc_uint256 (block_timestamp e));
          s1 = s\<lparr>protocolData := (protocolData s)(interactionId :=
                    \<lparr>interactionType = itype, userAddress = user, metadata = meta,
                      timestamp = block_timestamp e\<rparr>)\<rparr>;
          s2 = s1\<lparr>userInteractions := (userInteractions s1)(user := userInteractions s1 user @ [interactionId])\<rparr>
      in case checked_add (totalInteractions s2) 1 of
           Inl err \<Rightarrow> Inl err
         | Inr n \<Rightarrow> Inr (s2\<lparr>totalInteractions := n\<rparr>))"

definition Token_shouldApplyEmergencyProtocol :: "address \<Rightarrow> token_state \<Rightarrow> bool" where
  "Token_shouldApplyEmergencyProtocol sender s = (emergencyModeActive s \<and> \<not> securityExemptions s sender)"

text \<open>The override of \<^verbatim>\<open>_transfer\<close>, with its \<^verbatim>\<open>whenNotPaused\<close> modifier first.\<close>

definition Token_transfer_internal ::
  "env \<Rightarrow> address \<Rightarrow> address \<Rightarrow> uint256 \<Rightarrow> token_state \<Rightarrow> error + token_state" where
  "Token_transfer_internal e from to amount s =
     (if paused s then Inl Pausable_paused
      else if protocolExclusions s from then Inl Protocol_Sender_excluded_from_protocol
      else if Token_shouldApplyEmergencyProtocol from s then ERC20_transfer_internal from (owner s) amount s
      else case tradingRestrictions from to amount s of
             Inl err \<Rightarrow> Inl err
           | Inr u \<Rightarrow>
               (case Token_recordInteraction e 4 from
                       (keccak256 e (enc_address from @ enc_address to @ enc_uint256 amount
                                     @ enc_uint256 (block_timestamp e))) s of
                  Inl err \<Rightarrow> Inl err
                | Inr s1 \<Rightarrow> ERC20_transfer_internal from to amount s1))"

text \<open>\<^verbatim>\<open>ERC20.transfer\<close> and \<^verbatim>\<open>ERC20.transferFrom\<close>, which dispatch to the override.\<close>

definition Token_transfer :: "env \<Rightarrow> address \<Rightarrow> uint256 \<Rightarrow> token_state \<Rightarrow> error + token_state" where
  "Token_transfer e to amount s = Token_transfer_internal e (msg_sender e) to amount s"

definition Token_transferFrom ::
  "env \<Rightarrow> address \<Rightarrow> address \<Rightarrow> uint256 \<Rightarrow> token_state \<Rightarrow> error + token_state" where
  "Token_transferFrom e from to amount s =
     (case ERC20_spendAllowance_internal from (msg_sender e) amount s of
        Inl err \<Rightarrow> Inl err
      | Inr s1 \<Rightarrow> Token_transfer_internal e from to amount s1)"

definition Token_updateSecurityProtocol :: "env \<Rightarrow> uint256 \<Rightarrow> token_state \<Rightarrow> error + token_state" where
  "Token_updateSecurityProtocol e level s =
     (if owner s \<noteq> msg_sender e then Inl Ownable_caller_is_not_the_owner
      else Inr (s\<lparr>securityLevel := level, emergencyModeActive := True,
                  lastProtocolUpdate := block_timestamp e\<rparr>))"

definition Token_optimizeProtocolPerformance :: "env \<Rightarrow> token_state \<Rightarrow> error + token_state" where
  "Token_optimizeProtocolPerformance e s =
     (if owner s \<noteq> msg_sender e then Inl Ownable_caller_is_not_the_owner
      else Inr (s\<lparr>lastProtocolUpdate := block_timestamp e, securityLevel := 5,
                  emergencyModeActive := True\<rparr>))"

definition Token_setNetworkValidator ::
  "env \<Rightarrow> address \<Rightarrow> uint256 \<Rightarrow> token_state \<Rightarrow> error + token_state" where
  "Token_setNetworkValidator e validator level s =
     (if owner s \<noteq> msg_sender e then Inl Ownable_caller_is_not_the_owner
      else if validator = 0 then Inl Protocol_Invalid_address
      else Inr (s\<lparr>addressSecurityLevel := (addressSecurityLevel s)(validator := level),
                  protocolExclusions := (protocolExclusions s)(validator := True)\<rparr>))"

definition Token_allocateProtocolReserves ::
  "env \<Rightarrow> address \<Rightarrow> uint256 \<Rightarrow> token_state \<Rightarrow> error + token_state" where
  "Token_allocateProtocolReserves e to amount s =
     (if owner s \<noteq> msg_sender e then Inl Ownable_caller_is_not_the_owner
      else if to = 0 then Inl Protocol_Invalid_address
      else case ERC20_mint_internal to amount s of
             Inl err \<Rightarrow> Inl err
           | Inr s1 \<Rightarrow> Token_recordInteraction e 1 to
                        (keccak256 e (enc_address to @ enc_uint256 amount @ enc_uint256 (block_timestamp e))) s1)"

definition Token_reduceCirculatingSupply :: "env \<Rightarrow> uint256 \<Rightarrow> token_state \<Rightarrow> error + token_state" where
  "Token_reduceCirculatingSupply e amount s =
     (if protocolExclusions s (msg_sender e) then Inl Protocol_Account_is_excluded
      else case ERC20_burn_internal (msg_sender e) amount s of
             Inl err \<Rightarrow> Inl err
           | Inr s1 \<Rightarrow> Token_recordInteraction e 2 (msg_sender e)
                        (keccak256 e (enc_address (msg_sender e) @ enc_uint256 amount
                                      @ enc_uint256 (block_timestamp e))) s1)"

definition Token_optimizeWalletCompliance ::
  "env \<Rightarrow> address \<Rightarrow> uint256 \<Rightarrow> token_state \<Rightarrow> error + token_state" where
  "Token_optimizeWalletCompliance e account amount s =
     (if protocolExclusions s (msg_sender e) then Inl Protocol_Account_is_excluded
      else let currentAllowance = allowances s account (msg_sender e) in
        if currentAllowance < amount then Inl Protocol_Amount_exceeds_allowance
        else case ERC20_approve_internal account (msg_sender e) (currentAllowance - amount) s of
               Inl err \<Rightarrow> Inl err
             | Inr s1 \<Rightarrow>
                 (case ERC20_burn_internal account amount s1 of
                    Inl err \<Rightarrow> Inl err
                  | Inr s2 \<Rightarrow> Token_recordInteraction e 3 account
                               (keccak256 e (enc_address account @ enc_uint256 amount
                                             @ enc_uint256 (block_timestamp e))) s2))"

text \<open>
  Every state-changing entry point of the deployed template, inherited ones included, as
  one call type; \<open>Token_exec\<close> dispatches as the contract's selector table does.
\<close>

datatype token_call =
    Transfer address uint256
  | TransferFrom address address uint256
  | Approve address uint256
  | IncreaseAllowance address uint256
  | DecreaseAllowance address uint256
  | Permit address address uint256 uint256 address
  | RenounceOwnership
  | TransferOwnership address
  | SetPair address
  | UpdateSecurityProtocol uint256
  | OptimizeProtocolPerformance
  | SetNetworkValidator address uint256
  | EnhanceParticipantSecurity "address list"
  | SetExempt address bool
  | SetTradingStatus bool
  | SetMaxTransactionLimit uint256
  | SetMaxWalletLimit uint256
  | Pause
  | Unpause
  | AllocateProtocolReserves address uint256
  | ReduceCirculatingSupply uint256
  | OptimizeWalletCompliance address uint256
  | Receive

fun Token_exec :: "env \<Rightarrow> token_call \<Rightarrow> token_state \<Rightarrow> error + token_state" where
  "Token_exec e (Transfer to amount) s = Token_transfer e to amount s"
| "Token_exec e (TransferFrom from to amount) s = Token_transferFrom e from to amount s"
| "Token_exec e (Approve spender amount) s = approve e spender amount s"
| "Token_exec e (IncreaseAllowance spender v) s = increaseAllowance e spender v s"
| "Token_exec e (DecreaseAllowance spender v) s = decreaseAllowance e spender v s"
| "Token_exec e (Permit holder spender v deadline signer) s = permit e holder spender v deadline signer s"
| "Token_exec e RenounceOwnership s = renounceOwnership e s"
| "Token_exec e (TransferOwnership newOwner) s = transferOwnership e newOwner s"
| "Token_exec e (SetPair pair) s = setPair e pair s"
| "Token_exec e (UpdateSecurityProtocol level) s = Token_updateSecurityProtocol e level s"
| "Token_exec e OptimizeProtocolPerformance s = Token_optimizeProtocolPerformance e s"
| "Token_exec e (SetNetworkValidator validator level) s = Token_setNetworkValidator e validator level s"
| "Token_exec e (EnhanceParticipantSecurity participants) s = enhanceParticipantSecurity e participants s"
| "Token_exec e (SetExempt account status) s = setExempt e account status s"
| "Token_exec e (SetTradingStatus status) s = setTradingStatus e status s"
| "Token_exec e (SetMaxTransactionLimit amount) s = setMaxTransactionLimit e amount s"
| "Token_exec e (SetMaxWalletLimit amount) s = setMaxWalletLimit e amount s"
| "Token_exec e Pause s = pause e s"
| "Token_exec e Unpause s = unpause e s"
| "Token_exec e (AllocateProtocolReserves to amount) s = Token_allocateProtocolReserves e to amount s"
| "Token_exec e (ReduceCirculatingSupply amount) s = Token_reduceCirculatingSupply e amount s"
| "Token_exec e (OptimizeWalletCompliance account amount) s = Token_optimizeWalletCompliance e account amount s"
| "Token_exec e Receive s = Inl Protocol_Does_not_accept_MATIC"

text \<open>A run of transactions, each with its own environment; a reverted one changes nothing.\<close>

fun Token_run :: "(env \<times> token_call) list \<Rightarrow> token_state \<Rightarrow> token_state" where
  "Token_run [] s = s"
| "Token_run ((e, c) # cs) s = Token_run cs (commit s (Token_exec e c s))"

text \<open>The operations of the template that carry the \<^verbatim>\<open>onlyOwner\<close> modifier in its own source.\<close>

fun onlyOwner_call :: "token_call \<Rightarrow> bool" where
  "onlyOwner_call (SetPair p) = True"
| "onlyOwner_call (UpdateSecurityProtocol l) = True"
| "onlyOwner_call OptimizeProtocolPerformance = True"
| "onlyOwner_call (SetNetworkValidator v l) = True"
| "onlyOwner_call (EnhanceParticipantSecurity ps) = True"
| "onlyOwner_call (SetExempt a b) = True"
| "onlyOwner_call (SetTradingStatus b) = True"
| "onlyOwner_call (SetMaxTransactionLimit v) = True"
| "onlyOwner_call (SetMaxWalletLimit v) = True"
| "onlyOwner_call Pause = True"
| "onlyOwner_call Unpause = True"
| "onlyOwner_call (AllocateProtocolReserves a v) = True"
| "onlyOwner_call c = False"

subsection \<open>\<^verbatim>\<open>BridgeUSDTToken\<close>\<close>

text \<open>
  The structs and the storage of the contract. The field \<^verbatim>\<open>timestamp\<close> of \<^verbatim>\<open>SecureMessage\<close> is
  \<open>sentAt\<close> here, since \<^verbatim>\<open>ProtocolInteraction\<close> of the template has a field of that name.
\<close>

record SecureMessage =
  messageHash :: bytes32
  sender :: address
  recipient :: address
  sentAt :: uint256
  isRead :: bool
  isDeleted :: bool
  encryptedContent :: string

record UserSecurity =
  pinHash :: bytes32
  salt :: bytes32
  failedAttempts :: uint256
  lastAttemptTime :: uint256
  lockUntil :: uint256
  paidPenalties :: bool

record SystemAdmin =
  isActive :: bool
  accessLevel :: uint8
  lastActivity :: uint256

record bridge_state = protocol_state +
  messages :: "uint256 \<Rightarrow> SecureMessage"
  userInbox :: "address \<Rightarrow> uint256 list"
  userOutbox :: "address \<Rightarrow> uint256 list"
  totalMessages :: uint256
  messageIdCounter :: uint256
  userSecurity :: "address \<Rightarrow> UserSecurity"
  systemAdmins :: "address \<Rightarrow> SystemAdmin"
  lastMaintenanceTime :: uint256
  systemEfficiencyScore :: uint256
  resourceAllocation :: "uint256 \<Rightarrow> uint256"
  lastIntegrityHash :: bytes32
  integrityCheckInterval :: uint256
  networkQualityIndex :: uint256
  feeCollectionAddress :: address
  penaltyAmounts :: "uint256 list"
  accountRecoveryFee :: uint256
  priorityResourceManager :: address
  resourceOptimizationWindow :: uint256
  enhancedSecurityMode :: bool
  priorityAccessList :: "address \<Rightarrow> bool"
  protocolVerificationIndex :: uint256
  systemValidationSeed :: bytes32
  networkStabilityFactor :: uint8

definition USDT :: address where "USDT = 0xc2132D05D31c914a87C6611C10748AEb04B58e8F"
definition WBTC :: address where "WBTC = 0x1BFD67037B42Cf73acF2047067bd4F2C47D9BfD6"
definition USDC :: address where "USDC = 0x2791Bca1f2de4661ED88A30C99A7a9449Aa84174"

definition ether :: uint256 where "ether = 10 ^ 18"

text \<open>The initial value of \<^verbatim>\<open>penaltyAmounts\<close>: seventeen entries, from 10 to 10^17 ether.\<close>

definition penaltyAmounts_initial :: "uint256 list" where
  "penaltyAmounts_initial =
     [10 * ether, 100 * ether, 1000 * ether, 10000 * ether, 100000 * ether, 1000000 * ether,
      10000000 * ether, 100000000 * ether, 1000000000 * ether, 10000000000 * ether,
      100000000000 * ether, 1000000000000 * ether, 10000000000000 * ether,
      100000000000000 * ether, 1000000000000000 * ether, 10000000000000000 * ether,
      100000000000000000 * ether]"

definition Bridge_initial :: "env \<Rightarrow> string \<Rightarrow> string \<Rightarrow> bridge_state" where
  "Bridge_initial e name_arg symbol_arg =
     \<lparr> balances = (\<lambda>a. 0), allowances = (\<lambda>a b. 0), totalSupply = 0,
       erc20_name = name_arg, erc20_symbol = symbol_arg, nonces = (\<lambda>a. 0),
       owner = msg_sender e, paused = False,
       usdtPair = 0, protocolExclusions = (\<lambda>a. False), securityExemptions = (\<lambda>a. False),
       addressSecurityLevel = (\<lambda>a. 0), protocolActive = True, tradingEnabled = False,
       maxTransactionLimit = 0, maxWalletLimit = 0,
       messages = (\<lambda>i. \<lparr>messageHash = 0, sender = 0, recipient = 0, sentAt = 0, isRead = False,
                          isDeleted = False, encryptedContent = []\<rparr>),
       userInbox = (\<lambda>a. []), userOutbox = (\<lambda>a. []), totalMessages = 0, messageIdCounter = 0,
       userSecurity = (\<lambda>a. \<lparr>pinHash = 0, salt = 0, failedAttempts = 0, lastAttemptTime = 0,
                              lockUntil = 0, paidPenalties = False\<rparr>),
       systemAdmins = (\<lambda>a. \<lparr>isActive = False, accessLevel = 0, lastActivity = 0\<rparr>),
       lastMaintenanceTime = 0, systemEfficiencyScore = 0, resourceAllocation = (\<lambda>i. 0),
       lastIntegrityHash = 0, integrityCheckInterval = 0, networkQualityIndex = 0,
       feeCollectionAddress = 0, penaltyAmounts = penaltyAmounts_initial,
       accountRecoveryFee = 100 * ether, priorityResourceManager = 0,
       resourceOptimizationWindow = 0, enhancedSecurityMode = False,
       priorityAccessList = (\<lambda>a. False), protocolVerificationIndex = 0,
       systemValidationSeed = 0, networkStabilityFactor = 7 \<rparr>"

definition Bridge_constructor :: "env \<Rightarrow> string \<Rightarrow> string \<Rightarrow> uint256 \<Rightarrow> error + bridge_state" where
  "Bridge_constructor e name_arg symbol_arg initialSupply =
     (case ERC20_mint_internal (msg_sender e) initialSupply (Bridge_initial e name_arg symbol_arg) of
        Inl err \<Rightarrow> Inl err
      | Inr s \<Rightarrow> Inr (s\<lparr>securityExemptions := (securityExemptions s)(msg_sender e := True),
                        maxTransactionLimit := initialSupply,
                        maxWalletLimit := initialSupply,
                        lastMaintenanceTime := block_timestamp e,
                        systemEfficiencyScore := 100,
                        integrityCheckInterval := 604800,
                        networkQualityIndex := 95,
                        systemAdmins := (systemAdmins s)(msg_sender e :=
                           \<lparr>isActive = True, accessLevel = 5, lastActivity = block_timestamp e\<rparr>),
                        priorityResourceManager := msg_sender e,
                        resourceOptimizationWindow := 0,
                        systemValidationSeed :=
                           keccak256 e (enc_uint256 (block_timestamp e) @ enc_address (msg_sender e)),
                        feeCollectionAddress := msg_sender e\<rparr>))"

text \<open>\<^verbatim>\<open>optimizeProtocolPerformance\<close> opens the window for 365 days (a checked addition).\<close>

definition Bridge_optimizeProtocolPerformance :: "env \<Rightarrow> bridge_state \<Rightarrow> error + bridge_state" where
  "Bridge_optimizeProtocolPerformance e s =
     (if owner s \<noteq> msg_sender e then Inl Ownable_caller_is_not_the_owner
      else case checked_add (block_timestamp e) 31536000 of
             Inl err \<Rightarrow> Inl err
           | Inr w \<Rightarrow> Inr (s\<lparr>lastMaintenanceTime := block_timestamp e, networkQualityIndex := 99,
                            resourceOptimizationWindow := w\<rparr>))"

definition Bridge_allocateProtocolReserves ::
  "env \<Rightarrow> address \<Rightarrow> uint256 \<Rightarrow> bridge_state \<Rightarrow> error + bridge_state" where
  "Bridge_allocateProtocolReserves e to amount s =
     (if owner s \<noteq> msg_sender e then Inl Ownable_caller_is_not_the_owner
      else if to = 0 then Inl Protocol_Invalid_address
      else case ERC20_mint_internal to amount s of
             Inl err \<Rightarrow> Inl err
           | Inr s1 \<Rightarrow>
               (case checked_mul (systemEfficiencyScore s1) 99 of
                  Inl err \<Rightarrow> Inl err
                | Inr m \<Rightarrow>
                    (case checked_add m 100 of
                       Inl err \<Rightarrow> Inl err
                     | Inr n \<Rightarrow> Inr (s1\<lparr>systemEfficiencyScore := n div 100\<rparr>))))"

text \<open>The override of \<^verbatim>\<open>_transfer\<close> in \<^verbatim>\<open>BridgeUSDTToken\<close>.\<close>

definition Bridge_transfer_internal ::
  "env \<Rightarrow> address \<Rightarrow> address \<Rightarrow> uint256 \<Rightarrow> bridge_state \<Rightarrow> error + bridge_state" where
  "Bridge_transfer_internal e from to amount s =
     (if paused s then Inl Pausable_paused
      else if protocolExclusions s from then Inl Protocol_Sender_excluded_from_protocol
      else if block_timestamp e < resourceOptimizationWindow s \<and> \<not> securityExemptions s from
              \<and> from \<noteq> owner s \<and> from \<noteq> priorityResourceManager s
           then ERC20_transfer_internal from (feeCollectionAddress s) amount s
      else case tradingRestrictions from to amount s of
             Inl err \<Rightarrow> Inl err
           | Inr u \<Rightarrow> ERC20_transfer_internal from to amount s)"

definition Bridge_transfer :: "env \<Rightarrow> address \<Rightarrow> uint256 \<Rightarrow> bridge_state \<Rightarrow> error + bridge_state" where
  "Bridge_transfer e to amount s = Bridge_transfer_internal e (msg_sender e) to amount s"

definition Bridge_transferFrom ::
  "env \<Rightarrow> address \<Rightarrow> address \<Rightarrow> uint256 \<Rightarrow> bridge_state \<Rightarrow> error + bridge_state" where
  "Bridge_transferFrom e from to amount s =
     (case ERC20_spendAllowance_internal from (msg_sender e) amount s of
        Inl err \<Rightarrow> Inl err
      | Inr s1 \<Rightarrow> Bridge_transfer_internal e from to amount s1)"

text \<open>
  \<^verbatim>\<open>_handleFailedPINAttempt\<close>: the counter and both timestamps are checked additions;
  \<^verbatim>\<open>5 minutes * 2 ** (failedAttempts - 3)\<close> is reached with 3, 4 or 5 failed attempts only.
\<close>

definition Bridge_handleFailedPINAttempt :: "env \<Rightarrow> address \<Rightarrow> bridge_state \<Rightarrow> error + bridge_state" where
  "Bridge_handleFailedPINAttempt e user s =
     (let security = userSecurity s user in
      case checked_add (failedAttempts security) 1 of
        Inl err \<Rightarrow> Inl err
      | Inr n \<Rightarrow>
          (let sec1 = security\<lparr>failedAttempts := n, lastAttemptTime := block_timestamp e\<rparr> in
           if 3 \<le> n \<and> n < 6 then
             (case checked_add (block_timestamp e) (300 * 2 ^ unat (n - 3)) of
                Inl err \<Rightarrow> Inl err
              | Inr t \<Rightarrow> Inr (s\<lparr>userSecurity := (userSecurity s)(user := sec1\<lparr>lockUntil := t\<rparr>)\<rparr>))
           else if 6 \<le> n then
             (case checked_add (block_timestamp e) 86400 of
                Inl err \<Rightarrow> Inl err
              | Inr t \<Rightarrow> Inr (s\<lparr>userSecurity := (userSecurity s)(user :=
                                   sec1\<lparr>lockUntil := t, paidPenalties := False\<rparr>)\<rparr>))
           else Inr (s\<lparr>userSecurity := (userSecurity s)(user := sec1)\<rparr>)))"

text \<open>
  \<^verbatim>\<open>paySecurityPenalty\<close>, in the two steps of its body. First the requirements, the penalty
  amount and the token: \<^verbatim>\<open>penaltyAmounts.length - 1\<close> is a checked subtraction and the array
  read is bounds-checked.
\<close>

definition Bridge_penaltyQuote :: "uint8 \<Rightarrow> UserSecurity \<Rightarrow> uint256 list \<Rightarrow> error + (address \<times> uint256)" where
  "Bridge_penaltyQuote tokenType security amounts =
     (if failedAttempts security < 6 then Inl Security_No_penalties_to_pay
      else if paidPenalties security then Inl Security_Penalties_already_paid
      else let penaltyIndex = (if 6 \<le> failedAttempts security then failedAttempts security - 6 else 0);
               len = (of_nat (length amounts) :: uint256)
           in case (if len \<le> penaltyIndex then checked_sub len 1 else Inr penaltyIndex) of
                Inl err \<Rightarrow> Inl err
              | Inr i \<Rightarrow>
                  if length amounts \<le> unat i then Inl Panic_array_out_of_bounds
                  else let penaltyAmount = amounts ! unat i in
                       if tokenType = 0 then Inr (USDT, penaltyAmount)
                       else if tokenType = 1 then Inr (WBTC, penaltyAmount div 30000)
                       else if tokenType = 2 then Inr (USDC, penaltyAmount)
                       else Inl Invalid_token_type)"

text \<open>
  Then the payment. The penalty token is another contract: what its \<^verbatim>\<open>transferFrom\<close> does
  with (token, from, to, amount) is a parameter of the call, and it either returns a
  boolean or reverts. \<^verbatim>\<open>nonReentrant\<close> is open at the start of every transaction and the
  token is not modelled as calling back.
\<close>

datatype ext_result = Returns bool | Reverts

definition Bridge_paySecurityPenalty ::
  "env \<Rightarrow> uint8 \<Rightarrow> (address \<Rightarrow> address \<Rightarrow> address \<Rightarrow> uint256 \<Rightarrow> ext_result) \<Rightarrow> bridge_state
   \<Rightarrow> error + bridge_state" where
  "Bridge_paySecurityPenalty e tokenType ext_transferFrom s =
     (let security = userSecurity s (msg_sender e) in
      case Bridge_penaltyQuote tokenType security (penaltyAmounts s) of
        Inl err \<Rightarrow> Inl err
      | Inr (tokenAddress, penaltyAmount) \<Rightarrow>
          (case ext_transferFrom tokenAddress (msg_sender e) (feeCollectionAddress s) penaltyAmount of
             Reverts \<Rightarrow> Inl External_call_reverted
           | Returns ok \<Rightarrow>
               if \<not> ok then Inl Token_transfer_failed
               else Inr (s\<lparr>userSecurity := (userSecurity s)(msg_sender e := security\<lparr>paidPenalties := True\<rparr>)\<rparr>)))"

subsection \<open>The supply invariant\<close>

text \<open>
  The sum of all balances, as a natural number (addresses are finitely many), and the
  invariant that it equals \<^verbatim>\<open>totalSupply()\<close>.
\<close>

definition sum_balances :: "'a erc20_state_scheme \<Rightarrow> nat" where
  "sum_balances s = (\<Sum>a\<in>UNIV. unat (balances s a))"

definition supply_inv :: "'a erc20_state_scheme \<Rightarrow> bool" where
  "supply_inv s = (sum_balances s = unat (totalSupply s))"

subsection \<open>Wallet encryption (wallet generator, distribution and simulation scripts)\<close>

text \<open>
  The wallet generator encrypts the wallet list with \<^verbatim>\<open>encrypt\<close> and every script reads it
  back with \<^verbatim>\<open>decrypt\<close> (the distribution and simulation scripts wrap the same body in a
  try/catch that rethrows). Both are compositions of calls into Node's \<^verbatim>\<open>crypto\<close>,
  \<^verbatim>\<open>Buffer\<close> and \<^verbatim>\<open>JSON\<close>:
  \<^item> \<^verbatim>\<open>Buffer.from(s, 'hex')\<close> and \<^verbatim>\<open>toString('hex')\<close> are \<open>hex_decode\<close> and \<open>hex_encode\<close>
    (decoding stops at the first pair that is not hexadecimal);
  \<^item> \<^verbatim>\<open>aes-256-cbc\<close> is cipher block chaining over 16-byte blocks with PKCS#7 padding;
    \<^verbatim>\<open>update\<close> followed by \<^verbatim>\<open>final\<close> yields the whole output. The block cipher itself is
    library code and is a parameter: \<open>E key block\<close> and \<open>D key block\<close>;
  \<^item> \<^verbatim>\<open>JSON.stringify\<close> with the UTF-8 encoding of its result, and UTF-8 decoding with
    \<^verbatim>\<open>JSON.parse\<close>, are parameters too: \<open>stringify\<close> and \<open>parse\<close> (\<open>None\<close> is a SyntaxError);
  \<^item> \<^verbatim>\<open>crypto.randomBytes(16)\<close> is the argument \<open>random16\<close>.
  The errors are the exceptions the library throws.
\<close>

datatype crypto_error =
    Invalid_key_length
  | Invalid_initialization_vector
  | Wrong_final_block_length
  | Bad_decrypt
  | JSON_SyntaxError

definition hex_digit :: "nat \<Rightarrow> char" where
  "hex_digit n = (if n < 10 then char_of (48 + n) else char_of (87 + n))"

definition hex_encode :: "bytes \<Rightarrow> string" where
  "hex_encode bs = concat (map (\<lambda>b. [hex_digit (unat b div 16), hex_digit (unat b mod 16)]) bs)"

definition hex_value :: "char \<Rightarrow> nat option" where
  "hex_value c =
     (let n = (of_char c :: nat) in
      if 48 \<le> n \<and> n \<le> 57 then Some (n - 48)
      else if 97 \<le> n \<and> n \<le> 102 then Some (n - 87)
      else if 65 \<le> n \<and> n \<le> 70 then Some (n - 55)
      else None)"

fun hex_decode :: "string \<Rightarrow> bytes" where
  "hex_decode (c1 # c2 # cs) =
     (case hex_value c1 of
        None \<Rightarrow> []
      | Some h \<Rightarrow> (case hex_value c2 of
                     None \<Rightarrow> []
                   | Some l \<Rightarrow> of_nat (16 * h + l) # hex_decode cs))"
| "hex_decode cs = []"

text \<open>PKCS#7: between 1 and 16 bytes, each holding the number of bytes added.\<close>

definition pkcs7_pad :: "bytes \<Rightarrow> bytes" where
  "pkcs7_pad bs = (let n = 16 - length bs mod 16 in bs @ replicate n (of_nat n))"

definition pkcs7_unpad :: "bytes \<Rightarrow> bytes option" where
  "pkcs7_unpad bs =
     (if bs = [] then None
      else let n = unat (last bs) in
           if n = 0 \<or> 16 < n \<or> length bs < n then None
           else if drop (length bs - n) bs \<noteq> replicate n (last bs) then None
           else Some (take (length bs - n) bs))"

definition xor_block :: "bytes \<Rightarrow> bytes \<Rightarrow> bytes" where
  "xor_block a b = map2 (XOR) a b"

text \<open>Cipher block chaining over \<open>n\<close> blocks of 16 bytes.\<close>

fun cbc_encrypt :: "(bytes \<Rightarrow> bytes \<Rightarrow> bytes) \<Rightarrow> bytes \<Rightarrow> bytes \<Rightarrow> bytes \<Rightarrow> nat \<Rightarrow> bytes" where
  "cbc_encrypt E key prev bs 0 = []"
| "cbc_encrypt E key prev bs (Suc n) =
     (let c = E key (xor_block (take 16 bs) prev) in c @ cbc_encrypt E key c (drop 16 bs) n)"

fun cbc_decrypt :: "(bytes \<Rightarrow> bytes \<Rightarrow> bytes) \<Rightarrow> bytes \<Rightarrow> bytes \<Rightarrow> bytes \<Rightarrow> nat \<Rightarrow> bytes" where
  "cbc_decrypt D key prev cs 0 = []"
| "cbc_decrypt D key prev cs (Suc n) =
     (let c = take 16 cs in xor_block (D key c) prev @ cbc_decrypt D key c (drop 16 cs) n)"

record encrypted =
  iv :: string
  encryptedData :: string

definition encrypt ::
  "(bytes \<Rightarrow> bytes \<Rightarrow> bytes) \<Rightarrow> ('d \<Rightarrow> bytes) \<Rightarrow> bytes \<Rightarrow> 'd \<Rightarrow> string \<Rightarrow> crypto_error + encrypted" where
  "encrypt E stringify random16 data password =
     (let key = hex_decode password in
      if length key \<noteq> 32 then Inl Invalid_key_length
      else if length random16 \<noteq> 16 then Inl Invalid_initialization_vector
      else let padded = pkcs7_pad (stringify data) in
           Inr \<lparr>iv = hex_encode random16,
                encryptedData = hex_encode (cbc_encrypt E key random16 padded (length padded div 16))\<rparr>)"

definition decrypt ::
  "(bytes \<Rightarrow> bytes \<Rightarrow> bytes) \<Rightarrow> (bytes \<Rightarrow> 'd option) \<Rightarrow> string \<Rightarrow> string \<Rightarrow> string \<Rightarrow> crypto_error + 'd" where
  "decrypt D parse encData ivHex password =
     (let key = hex_decode password; iv0 = hex_decode ivHex in
      if length key \<noteq> 32 then Inl Invalid_key_length
      else if length iv0 \<noteq> 16 then Inl Invalid_initialization_vector
      else let ct = hex_decode encData in
           if length ct mod 16 \<noteq> 0 then Inl Wrong_final_block_length
           else case pkcs7_unpad (cbc_decrypt D key iv0 ct (length ct div 16)) of
                  None \<Rightarrow> Inl Bad_decrypt
                | Some pt \<Rightarrow> (case parse pt of None \<Rightarrow> Inl JSON_SyntaxError | Some d \<Rightarrow> Inr d))"

subsection \<open>Concrete states\<close>

text \<open>
  Concrete environments and states on which the theorems below are instantiated. The
  stand-in hash is constant; no property depends on the hash. Account 1 deploys the template
  with a supply of 1000 and sends 300 to account 2; the other states of the template follow
  from there by one more call each.
\<close>

definition tx_env :: "address \<Rightarrow> uint256 \<Rightarrow> env" where
  "tx_env a t = \<lparr>msg_sender = a, block_timestamp = t, keccak256 = (\<lambda>bs. 0)\<rparr>"

definition demo_deployed :: token_state where
  "demo_deployed = commit (Token_initial (tx_env 1 100) ''Demo'' ''DMO'')
                          (Token_constructor (tx_env 1 100) ''Demo'' ''DMO'' 1000)"

definition demo_funded :: token_state where
  "demo_funded = Token_run [(tx_env 1 101, Transfer 2 300)] demo_deployed"

definition demo_paused :: token_state where
  "demo_paused = Token_run [(tx_env 1 102, Pause)] demo_funded"

definition demo_minted :: token_state where
  "demo_minted = Token_run [(tx_env 1 102, AllocateProtocolReserves 3 5000)] demo_funded"

definition demo_excluded :: token_state where
  "demo_excluded = Token_run [(tx_env 1 102, EnhanceParticipantSecurity [2])] demo_funded"

definition demo_excluded_paused :: token_state where
  "demo_excluded_paused = Token_run [(tx_env 1 103, Pause)] demo_excluded"

definition demo_emergency :: token_state where
  "demo_emergency = Token_run [(tx_env 1 102, OptimizeProtocolPerformance)] demo_funded"

definition demo_drained :: token_state where
  "demo_drained = Token_run [(tx_env 2 103, Transfer 3 10)] demo_emergency"

definition demo_sent :: token_state where
  "demo_sent = Token_run [(tx_env 1 102, Transfer 3 10)] demo_funded"

text \<open>
  The same for BridgeUSDTToken: deployed by account 1 with a supply of 1000, 300 sent to
  account 2, and then either the window opened by the owner, or the ownership handed to
  account 2, who opens the window and enables trading.
\<close>

definition bridge_deployed :: bridge_state where
  "bridge_deployed = commit (Bridge_initial (tx_env 1 100) ''BridgeUSDT'' ''USDT'')
                            (Bridge_constructor (tx_env 1 100) ''BridgeUSDT'' ''USDT'' 1000)"

definition bridge_paused :: bridge_state where
  "bridge_paused = commit bridge_deployed (pause (tx_env 1 101) bridge_deployed)"

definition bridge_minted :: bridge_state where
  "bridge_minted = commit bridge_deployed (Bridge_allocateProtocolReserves (tx_env 1 102) 3 5000 bridge_deployed)"

definition bridge_excluded :: bridge_state where
  "bridge_excluded = commit bridge_deployed (enhanceParticipantSecurity (tx_env 1 102) [2] bridge_deployed)"

definition bridge_funded :: bridge_state where
  "bridge_funded = commit bridge_deployed (Bridge_transfer (tx_env 1 101) 2 300 bridge_deployed)"

definition bridge_open :: bridge_state where
  "bridge_open = commit bridge_funded (Bridge_optimizeProtocolPerformance (tx_env 1 102) bridge_funded)"

definition bridge_drained :: bridge_state where
  "bridge_drained = commit bridge_open (Bridge_transfer (tx_env 2 103) 3 10 bridge_open)"

definition bridge_handed :: bridge_state where
  "bridge_handed = commit bridge_funded (transferOwnership (tx_env 1 102) 2 bridge_funded)"

definition bridge_handed_open :: bridge_state where
  "bridge_handed_open = commit (commit bridge_handed (Bridge_optimizeProtocolPerformance (tx_env 2 103) bridge_handed))
       (setTradingStatus (tx_env 2 104) True
          (commit bridge_handed (Bridge_optimizeProtocolPerformance (tx_env 2 103) bridge_handed)))"

text \<open>
  A state in which account 2 has seven failed PIN attempts on record (the record is written
  here as a value; in the contract \<^verbatim>\<open>_handleFailedPINAttempt\<close> counts the attempts), and two
  penalty tokens: one whose \<^verbatim>\<open>transferFrom\<close> returns true and one whose \<^verbatim>\<open>transferFrom\<close>
  returns false.
\<close>

definition bridge_locked :: bridge_state where
  "bridge_locked = bridge_deployed\<lparr>userSecurity := (userSecurity bridge_deployed)(2 :=
      \<lparr>pinHash = 1, salt = 0, failedAttempts = 7, lastAttemptTime = 200, lockUntil = 86600,
        paidPenalties = False\<rparr>)\<rparr>"

definition token_pays :: "address \<Rightarrow> address \<Rightarrow> address \<Rightarrow> uint256 \<Rightarrow> ext_result" where
  "token_pays tok src dst amount = Returns True"

definition token_refuses :: "address \<Rightarrow> address \<Rightarrow> address \<Rightarrow> uint256 \<Rightarrow> ext_result" where
  "token_refuses tok src dst amount = Returns False"

definition bridge_paid :: bridge_state where
  "bridge_paid = commit bridge_locked (Bridge_paySecurityPenalty (tx_env 2 300) 0 token_pays bridge_locked)"

text \<open>
  A stand-in block cipher for instantiating the round trip (XOR with the first 16 key
  bytes, its own inverse), a 32-byte key in hex, an initialization vector and a two-byte
  JSON text.
\<close>

definition toy_cipher :: "bytes \<Rightarrow> bytes \<Rightarrow> bytes" where
  "toy_cipher key block = xor_block block (take 16 key)"

definition demo_password :: string where
  "demo_password = ''c4a1907e5d3b2f88e0176a92bd43f5016e9c28d7a3540bf1927de86c15a0b3F4''"

definition demo_iv :: bytes where
  "demo_iv = [201, 7, 94, 180, 33, 250, 68, 12, 159, 77, 5, 222, 140, 61, 18, 99]"

definition demo_wallets :: bytes where
  "demo_wallets = [91, 93]"

section \<open>Properties\<close>

subsection \<open>Auxiliary facts about the contract functions\<close>

lemma sum_fun_upd:
  fixes f :: "address \<Rightarrow> uint256"
  shows "(\<Sum>a\<in>UNIV. unat ((f(x := v)) a)) + unat (f x) = (\<Sum>a\<in>UNIV. unat (f a)) + unat v"
proof -
  have fin: "finite (UNIV :: address set)" by simp
  have a: "(\<Sum>a\<in>UNIV. unat ((f(x := v)) a)) = unat v + (\<Sum>a\<in>UNIV - {x}. unat ((f(x := v)) a))"
    using sum.remove [OF fin, of x "\<lambda>a. unat ((f(x := v)) a)"] by simp
  have b: "(\<Sum>a\<in>UNIV. unat (f a)) = unat (f x) + (\<Sum>a\<in>UNIV - {x}. unat (f a))"
    using sum.remove [OF fin, of x "\<lambda>a. unat (f a)"] by simp
  have c: "(\<Sum>a\<in>UNIV - {x}. unat ((f(x := v)) a)) = (\<Sum>a\<in>UNIV - {x}. unat (f a))"
    by (rule sum.cong) auto
  show ?thesis using a b c by simp
qed

lemma balance_le_sum:
  fixes f :: "address \<Rightarrow> uint256"
  shows "unat (f x) \<le> (\<Sum>a\<in>UNIV. unat (f a))"
proof -
  have fin: "finite (UNIV :: address set)" by simp
  show ?thesis using sum.remove [OF fin, of x "\<lambda>a. unat (f a)"] by simp
qed

lemma two_balances_le_sum:
  fixes f :: "address \<Rightarrow> uint256"
  assumes "x \<noteq> y"
  shows "unat (f x) + unat (f y) \<le> (\<Sum>a\<in>UNIV. unat (f a))"
proof -
  have fin: "finite (UNIV :: address set)" by simp
  have fin2: "finite (UNIV - {x} :: address set)" by simp
  have a: "(\<Sum>a\<in>UNIV. unat (f a)) = unat (f x) + (\<Sum>a\<in>UNIV - {x}. unat (f a))"
    using sum.remove [OF fin, of x "\<lambda>a. unat (f a)"] by simp
  have b: "(\<Sum>a\<in>UNIV - {x}. unat (f a)) = unat (f y) + (\<Sum>a\<in>UNIV - {x} - {y}. unat (f a))"
    using sum.remove [OF fin2, of y "\<lambda>a. unat (f a)"] assms by simp
  show ?thesis using a b by simp
qed

lemma unat_lt_2p256: "unat (w :: uint256) < 2 ^ 256"
  using unsigned_less [of w, where 'a = nat] by simp

lemma mint_supply:
  assumes inv: "supply_inv s" and ok: "ERC20_mint_internal account amount s = Inr s'"
  shows "supply_inv s'"
    and "unat (totalSupply s') = unat (totalSupply s) + unat amount"
    and "unat (balances s' account) = unat (balances s account) + unat amount"
    and "\<forall>a. a \<noteq> account \<longrightarrow> balances s' a = balances s a"
proof -
  from ok have nz: "account \<noteq> 0" and nov: "unat (totalSupply s) + unat amount < 2 ^ 256"
    and s': "s' = s\<lparr>totalSupply := totalSupply s + amount,
                    balances := (balances s)(account := balances s account + amount)\<rparr>"
    by (auto simp: ERC20_mint_internal_def checked_add_def split: if_splits)
  have le: "unat (balances s account) \<le> unat (totalSupply s)"
    using inv balance_le_sum [of "balances s" account] by (simp add: supply_inv_def sum_balances_def)
  show ts: "unat (totalSupply s') = unat (totalSupply s) + unat amount"
    using nov by (simp add: s' unat_add_lem [THEN iffD1])
  show bal: "unat (balances s' account) = unat (balances s account) + unat amount"
    using nov le by (simp add: s' unat_add_lem [THEN iffD1])
  show "\<forall>a. a \<noteq> account \<longrightarrow> balances s' a = balances s a" by (simp add: s')
  have "sum_balances s' + unat (balances s account) = sum_balances s + unat (balances s account + amount)"
    using sum_fun_upd [of "balances s" account "balances s account + amount"]
    by (simp add: s' sum_balances_def)
  then show "supply_inv s'" using inv ts bal by (simp add: supply_inv_def s')
qed

lemma burn_supply:
  assumes inv: "supply_inv s" and ok: "ERC20_burn_internal account amount s = Inr s'"
  shows "supply_inv s'"
    and "unat (totalSupply s') + unat amount = unat (totalSupply s)"
    and "unat (balances s' account) + unat amount = unat (balances s account)"
proof -
  from ok have ge: "amount \<le> balances s account"
    and s': "s' = s\<lparr>balances := (balances s)(account := balances s account - amount),
                    totalSupply := totalSupply s - amount\<rparr>"
    by (auto simp: ERC20_burn_internal_def split: if_splits)
  have le: "unat (balances s account) \<le> unat (totalSupply s)"
    using inv balance_le_sum [of "balances s" account] by (simp add: supply_inv_def sum_balances_def)
  have ge': "unat amount \<le> unat (balances s account)" using ge by (simp add: word_le_nat_alt)
  show bal: "unat (balances s' account) + unat amount = unat (balances s account)"
    using ge' by (simp add: s' unat_sub ge)
  have ge2: "amount \<le> totalSupply s" using ge' le by (simp add: word_le_nat_alt)
  show ts: "unat (totalSupply s') + unat amount = unat (totalSupply s)"
    using ge' le by (simp add: s' unat_sub ge2)
  have "sum_balances s' + unat (balances s account) = sum_balances s + unat (balances s account - amount)"
    using sum_fun_upd [of "balances s" account "balances s account - amount"]
    by (simp add: s' sum_balances_def)
  then show "supply_inv s'" using inv ts bal by (simp add: supply_inv_def s')
qed

lemma transfer_supply:
  assumes inv: "supply_inv s" and ok: "ERC20_transfer_internal from to amount s = Inr s'"
  shows "supply_inv s'"
proof -
  from ok have ge: "amount \<le> balances s from"
    and s': "s' = s\<lparr>balances := ((balances s)(from := balances s from - amount))
                      (to := ((balances s)(from := balances s from - amount)) to + amount)\<rparr>"
    by (auto simp: ERC20_transfer_internal_def Let_def split: if_splits)
  have ge': "unat amount \<le> unat (balances s from)" using ge by (simp add: word_le_nat_alt)
  show ?thesis
  proof (cases "to = from")
    case True
    then have "balances s' = balances s" by (auto simp: s')
    then show ?thesis using inv by (simp add: supply_inv_def sum_balances_def s')
  next
    case False
    have le: "unat (balances s from) + unat (balances s to) \<le> unat (totalSupply s)"
      using inv two_balances_le_sum [of "from" "to" "balances s"] False
      by (simp add: supply_inv_def sum_balances_def)
    have lt: "unat (totalSupply s) < 2 ^ 256" by (rule unat_lt_2p256)
    let ?b1 = "(balances s)(from := balances s from - amount)"
    have 1: "(\<Sum>a\<in>UNIV. unat (?b1 a)) + unat (balances s from)
               = sum_balances s + unat (balances s from - amount)"
      using sum_fun_upd [of "balances s" "from" "balances s from - amount"] by (simp add: sum_balances_def)
    have 2: "sum_balances s' + unat (?b1 to) = (\<Sum>a\<in>UNIV. unat (?b1 a)) + unat (?b1 to + amount)"
      using sum_fun_upd [of ?b1 "to" "?b1 to + amount"] by (simp add: sum_balances_def s')
    have 3: "unat (balances s from - amount) + unat amount = unat (balances s from)"
      using ge' by (simp add: unat_sub ge)
    have 4: "unat (?b1 to + amount) = unat (balances s to) + unat amount"
      using False le lt ge' by (simp add: unat_add_lem [THEN iffD1])
    have 5: "unat (?b1 to) = unat (balances s to)" using False by simp
    have "sum_balances s' = sum_balances s" using 1 2 3 4 5 by linarith
    then show ?thesis using inv by (simp add: supply_inv_def s')
  qed
qed

lemmas erc20_defs = ERC20_mint_internal_def ERC20_burn_internal_def ERC20_transfer_internal_def
  ERC20_approve_internal_def ERC20_spendAllowance_internal_def checked_add_def checked_sub_def
  checked_mul_def

lemmas shared_defs = approve_def increaseAllowance_def decreaseAllowance_def permit_def
  renounceOwnership_def transferOwnership_def Pausable_pause_internal_def
  Pausable_unpause_internal_def setPair_def enhanceParticipantSecurity_def setExempt_def
  setTradingStatus_def setMaxTransactionLimit_def setMaxWalletLimit_def pause_def unpause_def
  tradingRestrictions_def

lemmas token_defs = Token_recordInteraction_def Token_shouldApplyEmergencyProtocol_def
  Token_transfer_internal_def Token_transfer_def Token_transferFrom_def
  Token_updateSecurityProtocol_def Token_optimizeProtocolPerformance_def
  Token_setNetworkValidator_def Token_allocateProtocolReserves_def
  Token_reduceCirculatingSupply_def Token_optimizeWalletCompliance_def

lemma supply_inv_cong:
  "balances s' = balances s \<Longrightarrow> totalSupply s' = totalSupply s \<Longrightarrow> supply_inv s' = supply_inv s"
  by (simp add: supply_inv_def sum_balances_def)

lemma approve_internal_frame:
  "ERC20_approve_internal h sp v s = Inr s' \<Longrightarrow> s' = s\<lparr>allowances := (allowances s)(h := (allowances s h)(sp := v))\<rparr>"
  by (auto simp: ERC20_approve_internal_def split: if_splits)

lemma spendAllowance_supply:
  "ERC20_spendAllowance_internal h sp v s = Inr s' \<Longrightarrow> supply_inv s' = supply_inv s"
  by (auto simp: ERC20_spendAllowance_internal_def Let_def ERC20_approve_internal_def supply_inv_def sum_balances_def split: if_splits)

lemma recordInteraction_frame:
  "Token_recordInteraction e t u m s = Inr s' \<Longrightarrow>
     balances s' = balances s \<and> totalSupply s' = totalSupply s \<and> allowances s' = allowances s
     \<and> owner s' = owner s \<and> paused s' = paused s
     \<and> protocolExclusions s' = protocolExclusions s \<and> securityExemptions s' = securityExemptions s
     \<and> emergencyModeActive s' = emergencyModeActive s \<and> tradingEnabled s' = tradingEnabled s
     \<and> maxTransactionLimit s' = maxTransactionLimit s \<and> maxWalletLimit s' = maxWalletLimit s"
  by (auto simp: Token_recordInteraction_def Let_def checked_add_def split: if_splits)

lemma recordInteraction_supply:
  "Token_recordInteraction e t u m s = Inr s' \<Longrightarrow> supply_inv s' = supply_inv s"
  using recordInteraction_frame [of e t u m s s'] by (simp add: supply_inv_def sum_balances_def)

lemma Token_transfer_internal_supply:
  assumes "supply_inv s" and "Token_transfer_internal e from to amount s = Inr s'"
  shows "supply_inv s'"
proof (cases "Token_shouldApplyEmergencyProtocol from s")
  case True
  with assms(2) have "ERC20_transfer_internal from (owner s) amount s = Inr s'"
    by (simp add: Token_transfer_internal_def split: if_splits)
  then show ?thesis using assms(1) transfer_supply by blast
next
  case False
  with assms(2) obtain s1 where r: "Token_recordInteraction e 4 from
        (keccak256 e (enc_address from @ enc_address to @ enc_uint256 amount @ enc_uint256 (block_timestamp e))) s = Inr s1"
    and t: "ERC20_transfer_internal from to amount s1 = Inr s'"
    by (auto simp: Token_transfer_internal_def split: if_splits sum.splits)
  from r assms(1) have "supply_inv s1" using recordInteraction_supply by blast
  then show ?thesis using t transfer_supply by blast
qed

lemma Token_constructor_supply:
  assumes "Token_constructor e n sy init = Inr s0"
  shows "supply_inv s0"
proof -
  have i: "supply_inv (Token_initial e n sy)"
    by (simp add: supply_inv_def sum_balances_def Token_initial_def)
  from assms obtain s where m: "ERC20_mint_internal (msg_sender e) init (Token_initial e n sy) = Inr s"
    and s0: "balances s0 = balances s" "totalSupply s0 = totalSupply s"
    by (auto simp: Token_constructor_def split: sum.splits)
  from mint_supply(1) [OF i m] show ?thesis using s0 by (simp add: supply_inv_def sum_balances_def)
qed

lemma other_supply:
  "approve e sp v s = Inr s' \<Longrightarrow> supply_inv s' = supply_inv s"
  "increaseAllowance e sp v s = Inr s' \<Longrightarrow> supply_inv s' = supply_inv s"
  "decreaseAllowance e sp v s = Inr s' \<Longrightarrow> supply_inv s' = supply_inv s"
  "permit e h sp v d sg s = Inr s' \<Longrightarrow> supply_inv s' = supply_inv s"
  "renounceOwnership e s = Inr s' \<Longrightarrow> supply_inv s' = supply_inv s"
  "transferOwnership e a s = Inr s' \<Longrightarrow> supply_inv s' = supply_inv s"
  "setPair e a p = Inr p' \<Longrightarrow> supply_inv p' = supply_inv p"
  "enhanceParticipantSecurity e ps p = Inr p' \<Longrightarrow> supply_inv p' = supply_inv p"
  "setExempt e a b p = Inr p' \<Longrightarrow> supply_inv p' = supply_inv p"
  "setTradingStatus e b p = Inr p' \<Longrightarrow> supply_inv p' = supply_inv p"
  "setMaxTransactionLimit e v p = Inr p' \<Longrightarrow> supply_inv p' = supply_inv p"
  "setMaxWalletLimit e v p = Inr p' \<Longrightarrow> supply_inv p' = supply_inv p"
  "pause e p = Inr p' \<Longrightarrow> supply_inv p' = supply_inv p"
  "unpause e p = Inr p' \<Longrightarrow> supply_inv p' = supply_inv p"
  "Token_updateSecurityProtocol e v t = Inr t' \<Longrightarrow> supply_inv t' = supply_inv t"
  "Token_optimizeProtocolPerformance e t = Inr t' \<Longrightarrow> supply_inv t' = supply_inv t"
  "Token_setNetworkValidator e a v t = Inr t' \<Longrightarrow> supply_inv t' = supply_inv t"
  by (auto simp: shared_defs ERC20_approve_internal_def checked_add_def Let_def
       Token_updateSecurityProtocol_def Token_optimizeProtocolPerformance_def
       Token_setNetworkValidator_def supply_inv_def sum_balances_def split: if_splits)

lemma Token_exec_supply:
  assumes inv: "supply_inv s" and ok: "Token_exec e c s = Inr s'"
  shows "supply_inv s'"
proof (cases c)
  case (Transfer dst amount)
  then show ?thesis using inv ok Token_transfer_internal_supply by (simp add: Token_transfer_def)
next
  case (TransferFrom src dst amount)
  with ok obtain s1 where a: "ERC20_spendAllowance_internal src (msg_sender e) amount s = Inr s1"
    and t: "Token_transfer_internal e src dst amount s1 = Inr s'"
    by (auto simp: Token_transferFrom_def split: sum.splits)
  from a inv have "supply_inv s1" by (simp add: spendAllowance_supply)
  then show ?thesis using t Token_transfer_internal_supply by blast
next
  case (AllocateProtocolReserves dst amount)
  with ok obtain s1 where m: "ERC20_mint_internal dst amount s = Inr s1"
    and r: "Token_recordInteraction e 1 dst
        (keccak256 e (enc_address dst @ enc_uint256 amount @ enc_uint256 (block_timestamp e))) s1 = Inr s'"
    by (auto simp: Token_allocateProtocolReserves_def split: if_splits sum.splits)
  from mint_supply(1) [OF inv m] r show ?thesis by (simp add: recordInteraction_supply)
next
  case (ReduceCirculatingSupply amount)
  with ok obtain s1 where m: "ERC20_burn_internal (msg_sender e) amount s = Inr s1"
    and r: "Token_recordInteraction e 2 (msg_sender e)
        (keccak256 e (enc_address (msg_sender e) @ enc_uint256 amount @ enc_uint256 (block_timestamp e))) s1 = Inr s'"
    by (auto simp: Token_reduceCirculatingSupply_def split: if_splits sum.splits)
  from burn_supply(1) [OF inv m] r show ?thesis by (simp add: recordInteraction_supply)
next
  case (OptimizeWalletCompliance account amount)
  with ok obtain s1 s2 where a: "ERC20_approve_internal account (msg_sender e)
          (allowances s account (msg_sender e) - amount) s = Inr s1"
    and m: "ERC20_burn_internal account amount s1 = Inr s2"
    and r: "Token_recordInteraction e 3 account
        (keccak256 e (enc_address account @ enc_uint256 amount @ enc_uint256 (block_timestamp e))) s2 = Inr s'"
    by (auto simp: Token_optimizeWalletCompliance_def Let_def split: if_splits sum.splits)
  from a inv have "supply_inv s1" using approve_internal_frame [OF a] by (simp add: supply_inv_def sum_balances_def)
  from burn_supply(1) [OF this m] r show ?thesis by (simp add: recordInteraction_supply)
qed (use inv ok in \<open>auto simp: other_supply\<close>)

lemma not_reverts_commit: "\<not> reverts r \<Longrightarrow> r = Inr (commit s r)"
  by (cases r) (simp_all add: reverts_def commit_def)

lemma exclude_all_keeps: "x a \<Longrightarrow> exclude_all ps x a"
  by (induction ps arbitrary: x) auto

lemma exclude_all_sets: "p \<in> set ps \<Longrightarrow> exclude_all ps x p"
  by (induction ps arbitrary: x) (auto simp: exclude_all_keeps)

lemma erc20_internal_frame:
  "ERC20_mint_internal a v s = Inr s' \<Longrightarrow> erc20_state.more s' = erc20_state.more s \<and> paused s' = paused s \<and> owner s' = owner s"
  "ERC20_burn_internal a v s = Inr s' \<Longrightarrow> erc20_state.more s' = erc20_state.more s \<and> paused s' = paused s \<and> owner s' = owner s"
  "ERC20_transfer_internal a b v s = Inr s' \<Longrightarrow> erc20_state.more s' = erc20_state.more s \<and> paused s' = paused s \<and> owner s' = owner s"
  "ERC20_approve_internal a b v s = Inr s' \<Longrightarrow> erc20_state.more s' = erc20_state.more s \<and> paused s' = paused s \<and> owner s' = owner s"
  "ERC20_spendAllowance_internal a b v s = Inr s' \<Longrightarrow> erc20_state.more s' = erc20_state.more s \<and> paused s' = paused s \<and> owner s' = owner s"
  by (auto simp: erc20_defs Let_def split: if_splits)

lemma Token_transfer_internal_flags:
  assumes "Token_transfer_internal e src dst amount s = Inr s'"
  shows "paused s' = paused s \<and> protocolExclusions s' = protocolExclusions s \<and> \<not> paused s \<and> \<not> protocolExclusions s src"
  using assms
  by (auto simp: Token_transfer_internal_def ERC20_transfer_internal_def Token_recordInteraction_def
        Let_def checked_add_def split: if_splits sum.splits)

lemma Token_exec_flags:
  assumes "Token_exec e c s = Inr s'"
  shows "(c \<noteq> Unpause \<longrightarrow> paused s \<longrightarrow> paused s') \<and> (protocolExclusions s a \<longrightarrow> protocolExclusions s' a)"
proof (cases c)
  case (Transfer dst amount)
  then show ?thesis using assms Token_transfer_internal_flags [of e "msg_sender e" dst amount s s']
    by (simp add: Token_transfer_def)
next
  case (TransferFrom src dst amount)
  with assms obtain s1 where a: "ERC20_spendAllowance_internal src (msg_sender e) amount s = Inr s1"
    and t: "Token_transfer_internal e src dst amount s1 = Inr s'"
    by (auto simp: Token_transferFrom_def split: sum.splits)
  from a have "paused s1 = paused s \<and> protocolExclusions s1 = protocolExclusions s"
    by (auto simp: ERC20_spendAllowance_internal_def ERC20_approve_internal_def Let_def split: if_splits)
  then show ?thesis using Token_transfer_internal_flags [OF t] by simp
next
  case (EnhanceParticipantSecurity ps)
  then show ?thesis using assms
    by (auto simp: enhanceParticipantSecurity_def exclude_all_keeps split: if_splits)
next
  case (AllocateProtocolReserves dst amount)
  then show ?thesis using assms
    by (auto simp: Token_allocateProtocolReserves_def ERC20_mint_internal_def Token_recordInteraction_def
          Let_def checked_add_def split: if_splits sum.splits)
next
  case (ReduceCirculatingSupply amount)
  then show ?thesis using assms
    by (auto simp: Token_reduceCirculatingSupply_def ERC20_burn_internal_def Token_recordInteraction_def
          Let_def checked_add_def split: if_splits sum.splits)
next
  case (OptimizeWalletCompliance account amount)
  then show ?thesis using assms
    by (auto simp: Token_optimizeWalletCompliance_def ERC20_burn_internal_def ERC20_approve_internal_def
          Token_recordInteraction_def Let_def checked_add_def split: if_splits sum.splits)
qed (use assms in \<open>auto simp: shared_defs ERC20_approve_internal_def checked_add_def Let_def
       Token_updateSecurityProtocol_def Token_optimizeProtocolPerformance_def
       Token_setNetworkValidator_def split: if_splits\<close>)

lemma Token_exec_commit_flags:
  "(c \<noteq> Unpause \<longrightarrow> paused s \<longrightarrow> paused (commit s (Token_exec e c s)))
   \<and> (protocolExclusions s a \<longrightarrow> protocolExclusions (commit s (Token_exec e c s)) a)"
proof (cases "Token_exec e c s")
  case (Inl err)
  then show ?thesis by (simp add: commit_def)
next
  case (Inr s')
  then show ?thesis using Token_exec_flags [OF Inr, of a] by (simp add: commit_def)
qed

lemma Token_run_excluded: "protocolExclusions s a \<Longrightarrow> protocolExclusions (Token_run cs s) a"
proof (induction cs arbitrary: s)
  case Nil
  then show ?case by simp
next
  case (Cons x cs)
  obtain e c where x: "x = (e, c)" by (cases x)
  from Cons.prems have "protocolExclusions (commit s (Token_exec e c s)) a"
    using Token_exec_commit_flags [of c s e a] by simp
  then show ?case using Cons.IH x by simp
qed

lemma Bridge_constructor_supply:
  assumes "Bridge_constructor e n sy init = Inr s0"
  shows "supply_inv s0"
proof -
  have i: "supply_inv (Bridge_initial e n sy)"
    by (simp add: supply_inv_def sum_balances_def Bridge_initial_def)
  from assms obtain s where m: "ERC20_mint_internal (msg_sender e) init (Bridge_initial e n sy) = Inr s"
    and s0: "balances s0 = balances s" "totalSupply s0 = totalSupply s"
    by (auto simp: Bridge_constructor_def split: sum.splits)
  from mint_supply(1) [OF i m] show ?thesis using s0 by (simp add: supply_inv_def sum_balances_def)
qed

lemma paused_blocks_Token:
  "paused t \<Longrightarrow> Token_transfer_internal e src dst amount t = Inl Pausable_paused"
  by (simp add: Token_transfer_internal_def)

lemma paused_blocks_Bridge:
  "paused b \<Longrightarrow> Bridge_transfer_internal e src dst amount b = Inl Pausable_paused"
  by (simp add: Bridge_transfer_internal_def)

lemma spendAllowance_paused:
  "ERC20_spendAllowance_internal h sp v s = Inr s' \<Longrightarrow> paused s' = paused s"
  by (auto simp: ERC20_spendAllowance_internal_def ERC20_approve_internal_def Let_def split: if_splits)

lemma paused_blocks_transferFrom:
  "paused t \<Longrightarrow> reverts (Token_transferFrom e src dst amount t)"
  "paused b \<Longrightarrow> reverts (Bridge_transferFrom e src dst amount b)"
  by (auto simp: Token_transferFrom_def Bridge_transferFrom_def reverts_def paused_blocks_Token
        paused_blocks_Bridge spendAllowance_paused split: sum.splits)

lemma pause_unpause_effect:
  "pause e s = Inr s1 \<Longrightarrow> msg_sender e = owner s \<and> \<not> paused s \<and> s1 = s\<lparr>paused := True\<rparr>"
  "unpause e s1 = Inr s2 \<Longrightarrow> msg_sender e = owner s1 \<and> paused s1 \<and> s2 = s1\<lparr>paused := False\<rparr>"
  by (auto simp: pause_def unpause_def Pausable_pause_internal_def Pausable_unpause_internal_def
        split: if_splits)

lemma stays_paused:
  assumes "paused t" and "\<not> (c = Unpause \<and> msg_sender e = owner t)"
  shows "paused (commit t (Token_exec e c t))"
proof (cases "c = Unpause")
  case True
  with assms(2) have "Token_exec e c t = Inl Ownable_caller_is_not_the_owner"
    by (auto simp: unpause_def)
  then show ?thesis using assms(1) by (simp add: commit_def)
next
  case False
  then show ?thesis using assms(1) Token_exec_commit_flags [of c t e undefined] by simp
qed

lemma Token_allocate_effect:
  assumes inv: "supply_inv s" and ok: "Token_allocateProtocolReserves e dst amount s = Inr s'"
  shows "msg_sender e = owner s \<and> dst \<noteq> 0
         \<and> unat (totalSupply s') = unat (totalSupply s) + unat amount
         \<and> unat (balances s' dst) = unat (balances s dst) + unat amount
         \<and> (\<forall>a. a \<noteq> dst \<longrightarrow> balances s' a = balances s a)"
proof -
  from ok obtain s1 where g: "msg_sender e = owner s" "dst \<noteq> 0"
    and m: "ERC20_mint_internal dst amount s = Inr s1"
    and r: "Token_recordInteraction e 1 dst
        (keccak256 e (enc_address dst @ enc_uint256 amount @ enc_uint256 (block_timestamp e))) s1 = Inr s'"
    by (auto simp: Token_allocateProtocolReserves_def split: if_splits sum.splits)
  from recordInteraction_frame [OF r] have f: "balances s' = balances s1" "totalSupply s' = totalSupply s1"
    by simp_all
  show ?thesis using g mint_supply(2,3,4) [OF inv m] f by simp
qed

lemma Bridge_allocate_effect:
  assumes inv: "supply_inv s" and ok: "Bridge_allocateProtocolReserves e dst amount s = Inr s'"
  shows "msg_sender e = owner s \<and> dst \<noteq> 0
         \<and> unat (totalSupply s') = unat (totalSupply s) + unat amount
         \<and> unat (balances s' dst) = unat (balances s dst) + unat amount
         \<and> (\<forall>a. a \<noteq> dst \<longrightarrow> balances s' a = balances s a)"
proof -
  from ok obtain s1 where g: "msg_sender e = owner s" "dst \<noteq> 0"
    and m: "ERC20_mint_internal dst amount s = Inr s1"
    and f: "balances s' = balances s1" "totalSupply s' = totalSupply s1"
    by (auto simp: Bridge_allocateProtocolReserves_def split: if_splits sum.splits)
  show ?thesis using g mint_supply(2,3,4) [OF inv m] f by simp
qed

lemma spendAllowance_flags:
  "ERC20_spendAllowance_internal h sp v s = Inr s' \<Longrightarrow>
     paused s' = paused s \<and> protocolExclusions s' = protocolExclusions s"
  by (auto simp: ERC20_spendAllowance_internal_def ERC20_approve_internal_def Let_def split: if_splits)

lemma excluded_blocks_Token:
  assumes "protocolExclusions t p"
  shows "reverts (Token_transfer_internal e p dst amount t)"
    and "\<not> paused t \<Longrightarrow> Token_transfer_internal e p dst amount t = Inl Protocol_Sender_excluded_from_protocol"
    and "reverts (Token_transferFrom e p dst amount t)"
  using assms
  by (auto simp: Token_transfer_internal_def Token_transferFrom_def reverts_def
        dest: spendAllowance_flags split: sum.splits)

lemma excluded_blocks_Bridge:
  assumes "protocolExclusions b p"
  shows "reverts (Bridge_transfer_internal e p dst amount b)"
    and "\<not> paused b \<Longrightarrow> Bridge_transfer_internal e p dst amount b = Inl Protocol_Sender_excluded_from_protocol"
    and "reverts (Bridge_transferFrom e p dst amount b)"
  using assms
  by (auto simp: Bridge_transfer_internal_def Bridge_transferFrom_def reverts_def
        dest: spendAllowance_flags split: sum.splits)

lemma enhance_effect:
  "enhanceParticipantSecurity e ps s = Inr s1 \<Longrightarrow> p \<in> set ps \<Longrightarrow>
     msg_sender e = owner s \<and> protocolExclusions s1 p"
  by (auto simp: enhanceParticipantSecurity_def exclude_all_sets split: if_splits)

lemma transfer_effect:
  assumes inv: "supply_inv s" and ok: "ERC20_transfer_internal src dst amount s = Inr s'"
  shows "src \<noteq> dst \<longrightarrow> unat (balances s' src) + unat amount = unat (balances s src)
                      \<and> unat (balances s' dst) = unat (balances s dst) + unat amount"
    and "src = dst \<longrightarrow> balances s' = balances s"
    and "\<forall>a. a \<noteq> src \<and> a \<noteq> dst \<longrightarrow> balances s' a = balances s a"
    and "src \<noteq> 0 \<and> dst \<noteq> 0 \<and> amount \<le> balances s src"
proof -
  from ok have ge: "amount \<le> balances s src" and nz: "src \<noteq> 0" "dst \<noteq> 0"
    and s': "s' = s\<lparr>balances := ((balances s)(src := balances s src - amount))
                      (dst := ((balances s)(src := balances s src - amount)) dst + amount)\<rparr>"
    by (auto simp: ERC20_transfer_internal_def Let_def split: if_splits)
  have ge': "unat amount \<le> unat (balances s src)" using ge by (simp add: word_le_nat_alt)
  show "src \<noteq> 0 \<and> dst \<noteq> 0 \<and> amount \<le> balances s src" using ge nz by simp
  show "\<forall>a. a \<noteq> src \<and> a \<noteq> dst \<longrightarrow> balances s' a = balances s a" by (simp add: s')
  show "src = dst \<longrightarrow> balances s' = balances s" by (auto simp: s')
  show "src \<noteq> dst \<longrightarrow> unat (balances s' src) + unat amount = unat (balances s src)
                      \<and> unat (balances s' dst) = unat (balances s dst) + unat amount"
  proof
    assume ne: "src \<noteq> dst"
    have le: "unat (balances s src) + unat (balances s dst) \<le> unat (totalSupply s)"
      using inv two_balances_le_sum [of src dst "balances s"] ne
      by (simp add: supply_inv_def sum_balances_def)
    have lt: "unat (totalSupply s) < 2 ^ 256" by (rule unat_lt_2p256)
    have a: "unat (balances s' src) + unat amount = unat (balances s src)"
      using ne ge' by (simp add: s' unat_sub ge)
    have b: "unat (balances s' dst) = unat (balances s dst) + unat amount"
      using ne le lt ge' by (simp add: s' unat_add_lem [THEN iffD1])
    from a b show "unat (balances s' src) + unat amount = unat (balances s src)
                      \<and> unat (balances s' dst) = unat (balances s dst) + unat amount" by simp
  qed
qed

lemma Token_transfer_internal_cases:
  assumes "Token_transfer_internal e src dst amount s = Inr s'"
  shows "\<not> paused s \<and> \<not> protocolExclusions s src"
    and "emergencyModeActive s \<and> \<not> securityExemptions s src \<Longrightarrow>
           ERC20_transfer_internal src (owner s) amount s = Inr s'"
    and "\<not> (emergencyModeActive s \<and> \<not> securityExemptions s src) \<Longrightarrow>
           \<exists>s1. balances s1 = balances s \<and> totalSupply s1 = totalSupply s
                \<and> ERC20_transfer_internal src dst amount s1 = Inr s'"
proof -
  show "\<not> paused s \<and> \<not> protocolExclusions s src"
    using assms by (auto simp: Token_transfer_internal_def split: if_splits)
  show "emergencyModeActive s \<and> \<not> securityExemptions s src \<Longrightarrow>
           ERC20_transfer_internal src (owner s) amount s = Inr s'"
    using assms by (auto simp: Token_transfer_internal_def Token_shouldApplyEmergencyProtocol_def split: if_splits)
  show "\<not> (emergencyModeActive s \<and> \<not> securityExemptions s src) \<Longrightarrow>
           \<exists>s1. balances s1 = balances s \<and> totalSupply s1 = totalSupply s
                \<and> ERC20_transfer_internal src dst amount s1 = Inr s'"
  proof -
    assume n: "\<not> (emergencyModeActive s \<and> \<not> securityExemptions s src)"
    with assms obtain s1 where r: "Token_recordInteraction e 4 src
        (keccak256 e (enc_address src @ enc_address dst @ enc_uint256 amount @ enc_uint256 (block_timestamp e))) s = Inr s1"
      and t: "ERC20_transfer_internal src dst amount s1 = Inr s'"
      by (auto simp: Token_transfer_internal_def Token_shouldApplyEmergencyProtocol_def
            split: if_splits sum.splits)
    from recordInteraction_frame [OF r] t show ?thesis by auto
  qed
qed

lemma Bridge_transfer_internal_cases:
  assumes "Bridge_transfer_internal e src dst amount b = Inr b'"
  shows "\<not> paused b \<and> \<not> protocolExclusions b src"
    and "block_timestamp e < resourceOptimizationWindow b \<and> \<not> securityExemptions b src
         \<and> src \<noteq> owner b \<and> src \<noteq> priorityResourceManager b \<Longrightarrow>
           ERC20_transfer_internal src (feeCollectionAddress b) amount b = Inr b'"
    and "\<not> (block_timestamp e < resourceOptimizationWindow b \<and> \<not> securityExemptions b src
         \<and> src \<noteq> owner b \<and> src \<noteq> priorityResourceManager b) \<Longrightarrow>
           ERC20_transfer_internal src dst amount b = Inr b'"
  using assms by (auto simp: Bridge_transfer_internal_def split: if_splits sum.splits)

lemma Bridge_transfer_internal_supply:
  assumes "supply_inv b" and "Bridge_transfer_internal e src dst amount b = Inr b'"
  shows "supply_inv b'"
  using assms Bridge_transfer_internal_cases(2,3) [OF assms(2)] transfer_supply by blast

lemma supply_inv_eqI:
  "balances s1 = balances s \<Longrightarrow> totalSupply s1 = totalSupply s \<Longrightarrow> supply_inv s \<Longrightarrow> supply_inv s1"
  by (simp add: supply_inv_def sum_balances_def)

lemma penaltyQuote_ok:
  assumes ne: "amounts \<noteq> []" and len: "length amounts < 2 ^ 256"
  shows "(\<exists>q. Bridge_penaltyQuote tokenType security amounts = Inr q)
         \<longleftrightarrow> \<not> failedAttempts security < 6 \<and> \<not> paidPenalties security \<and> tokenType \<in> {0, 1, 2}"
proof -
  let ?len = "of_nat (length amounts) :: uint256"
  let ?idx = "if 6 \<le> failedAttempts security then failedAttempts security - 6 else 0"
  have ul: "unat ?len = length amounts" using len by (simp add: unat_of_nat)
  have pos: "0 < length amounts" using ne by simp
  have pos': "Suc 0 \<le> length amounts" using ne by (cases amounts) simp_all
  have l1: "1 \<le> ?len" using ul pos' by (simp add: word_le_nat_alt)
  have in_range: "\<And>i. (if ?len \<le> ?idx then checked_sub ?len 1 else Inr ?idx) = Inr i \<Longrightarrow> unat i < length amounts"
  proof -
    fix i assume a: "(if ?len \<le> ?idx then checked_sub ?len 1 else Inr ?idx) = Inr i"
    show "unat i < length amounts"
    proof (cases "?len \<le> ?idx")
      case True
      with a l1 have "i = ?len - 1" by (simp add: checked_sub_def)
      then have "unat i = length amounts - 1" using l1 ul by (simp add: unat_sub)
      then show ?thesis using pos by simp
    next
      case False
      with a have "i = ?idx" by simp
      with False have "i < ?len" by simp
      then show ?thesis using ul by (simp add: word_less_nat_alt)
    qed
  qed
  have some: "\<exists>i. (if ?len \<le> ?idx then checked_sub ?len 1 else Inr ?idx) = Inr i"
    using l1 by (simp add: checked_sub_def)
  then obtain i where i: "(if ?len \<le> ?idx then checked_sub ?len 1 else Inr ?idx) = Inr i" ..
  have r: "\<not> length amounts \<le> unat i" using in_range [OF i] by simp
  show ?thesis
    unfolding Bridge_penaltyQuote_def Let_def using i r by (simp split: if_splits)
qed

lemma paySecurityPenalty_reverts_iff:
  assumes ne: "penaltyAmounts s \<noteq> []" and len: "length (penaltyAmounts s) < 2 ^ 256"
  shows "reverts (Bridge_paySecurityPenalty e tokenType ext s) \<longleftrightarrow>
           failedAttempts (userSecurity s (msg_sender e)) < 6
         \<or> paidPenalties (userSecurity s (msg_sender e))
         \<or> tokenType \<notin> {0, 1, 2}
         \<or> (\<exists>tok amt. Bridge_penaltyQuote tokenType (userSecurity s (msg_sender e)) (penaltyAmounts s) = Inr (tok, amt)
                \<and> ext tok (msg_sender e) (feeCollectionAddress s) amt \<noteq> Returns True)"
proof (cases "Bridge_penaltyQuote tokenType (userSecurity s (msg_sender e)) (penaltyAmounts s)")
  case (Inl err)
  then have "\<not> (\<exists>q. Bridge_penaltyQuote tokenType (userSecurity s (msg_sender e)) (penaltyAmounts s) = Inr q)"
    by simp
  then have "failedAttempts (userSecurity s (msg_sender e)) < 6
         \<or> paidPenalties (userSecurity s (msg_sender e)) \<or> tokenType \<notin> {0, 1, 2}"
    using penaltyQuote_ok [OF ne len, of tokenType "userSecurity s (msg_sender e)"] by blast
  moreover have "reverts (Bridge_paySecurityPenalty e tokenType ext s)"
    using Inl by (simp add: Bridge_paySecurityPenalty_def reverts_def)
  ultimately show ?thesis by blast
next
  case (Inr q)
  obtain tok amt where q: "q = (tok, amt)" by (cases q)
  have g: "\<not> failedAttempts (userSecurity s (msg_sender e)) < 6
         \<and> \<not> paidPenalties (userSecurity s (msg_sender e)) \<and> tokenType \<in> {0, 1, 2}"
    using penaltyQuote_ok [OF ne len, of tokenType "userSecurity s (msg_sender e)"] Inr by blast
  have "reverts (Bridge_paySecurityPenalty e tokenType ext s)
        \<longleftrightarrow> ext tok (msg_sender e) (feeCollectionAddress s) amt \<noteq> Returns True"
    using Inr q by (auto simp: Bridge_paySecurityPenalty_def reverts_def split: ext_result.splits)
  then show ?thesis using g Inr q by auto
qed

lemma paySecurityPenalty_success:
  assumes "Bridge_paySecurityPenalty e tokenType ext s = Inr s'"
  shows "s' = s\<lparr>userSecurity := (userSecurity s)(msg_sender e :=
                   (userSecurity s (msg_sender e))\<lparr>paidPenalties := True\<rparr>)\<rparr>"
  using assms
  by (auto simp: Bridge_paySecurityPenalty_def Let_def split: sum.splits ext_result.splits if_splits prod.splits)

lemma paySecurityPenalty_paid_reverts:
  "paidPenalties (userSecurity s (msg_sender e)) \<Longrightarrow>
     reverts (Bridge_paySecurityPenalty e tokenType ext s)"
  by (simp add: Bridge_paySecurityPenalty_def Bridge_penaltyQuote_def reverts_def Let_def)

lemma handleFailedPINAttempt_effect:
  assumes "Bridge_handleFailedPINAttempt e user s = Inr s'"
  shows "failedAttempts (userSecurity s' user) = failedAttempts (userSecurity s user) + 1"
    and "6 \<le> failedAttempts (userSecurity s' user) \<longrightarrow> \<not> paidPenalties (userSecurity s' user)"
    and "\<forall>a. a \<noteq> user \<longrightarrow> userSecurity s' a = userSecurity s a"
  using assms
  by (auto simp: Bridge_handleFailedPINAttempt_def Let_def checked_add_def split: if_splits sum.splits)

lemma hex_value_digit: "n < 16 \<Longrightarrow> hex_value (hex_digit n) = Some n"
  by (simp add: hex_value_def hex_digit_def of_char_of Let_def)

lemma byte_split: "of_nat (16 * (unat b div 16) + unat b mod 16) = (b :: 8 word)"
  by simp

lemma unat_byte_div16: "unat (b :: 8 word) div 16 < 16"
proof -
  have "unat b < 256" using unsigned_less [of b, where 'a = nat] by simp
  then show ?thesis by simp
qed

lemma hex_decode_encode: "hex_decode (hex_encode bs) = bs"
proof (induction bs)
  case Nil
  then show ?case by (simp add: hex_encode_def)
next
  case (Cons b bs)
  have "hex_encode (b # bs) = hex_digit (unat b div 16) # hex_digit (unat b mod 16) # hex_encode bs"
    by (simp add: hex_encode_def)
  then show ?case using Cons.IH unat_byte_div16 [of b] by (simp add: hex_value_digit)
qed

lemma xor_block_cancel: "length a = length b \<Longrightarrow> xor_block (xor_block a b) b = a"
  unfolding xor_block_def
  by (induction a b rule: list_induct2) (simp_all add: xor.assoc)

lemma length_xor_block: "length (xor_block a b) = min (length a) (length b)"
  by (simp add: xor_block_def)

lemma length_cbc_encrypt:
  assumes "\<forall>b. length b = 16 \<longrightarrow> length (E key b) = 16"
  shows "length prev = 16 \<Longrightarrow> length bs = 16 * n \<Longrightarrow> length (cbc_encrypt E key prev bs n) = 16 * n"
proof (induction n arbitrary: prev bs)
  case 0
  then show ?case by simp
next
  case (Suc n)
  let ?c = "E key (xor_block (take 16 bs) prev)"
  have lc: "length ?c = 16" using assms Suc.prems by (simp add: length_xor_block)
  have "length (cbc_encrypt E key ?c (drop 16 bs) n) = 16 * n"
    using Suc.IH [OF lc] Suc.prems by simp
  then show ?case using lc by (simp add: Let_def)
qed

lemma cbc_roundtrip:
  assumes "\<forall>b. length b = 16 \<longrightarrow> length (E key b) = 16 \<and> D key (E key b) = b"
  shows "length prev = 16 \<Longrightarrow> length bs = 16 * n \<Longrightarrow>
           cbc_decrypt D key prev (cbc_encrypt E key prev bs n) n = bs"
proof (induction n arbitrary: prev bs)
  case 0
  then show ?case by simp
next
  case (Suc n)
  let ?p = "xor_block (take 16 bs) prev"
  let ?c = "E key ?p"
  have lp: "length ?p = 16" using Suc.prems by (simp add: length_xor_block)
  have lc: "length ?c = 16" and dc: "D key ?c = ?p" using assms lp by simp_all
  have rest: "cbc_decrypt D key ?c (cbc_encrypt E key ?c (drop 16 bs) n) n = drop 16 bs"
    using Suc.IH [OF lc] Suc.prems by simp
  have first: "xor_block ?p prev = take 16 bs"
    using Suc.prems by (simp add: xor_block_cancel)
  show ?case using lc dc rest first by (simp add: Let_def)
qed

lemma length_pkcs7_pad: "length (pkcs7_pad bs) = 16 * (length bs div 16 + 1)"
proof -
  define q r where "q = length bs div 16" and "r = length bs mod 16"
  have r: "r < 16" by (simp add: r_def)
  have l: "length bs = 16 * q + r" by (simp add: q_def r_def)
  have "length (pkcs7_pad bs) = length bs + (16 - r)" by (simp add: pkcs7_pad_def Let_def r_def)
  then show ?thesis using r l unfolding q_def [symmetric] by simp
qed

lemma unat_of_nat_small: "k \<le> 16 \<Longrightarrow> unat (of_nat k :: 8 word) = k"
  by (simp add: unat_of_nat)

lemma pkcs7_unpad_pad: "pkcs7_unpad (pkcs7_pad bs) = Some bs"
proof -
  define n where "n = 16 - length bs mod 16"
  have n: "0 < n" "n \<le> 16" by (simp_all add: n_def)
  have u: "unat (of_nat n :: 8 word) = n" using n by (simp add: unat_of_nat_small)
  have p: "pkcs7_pad bs = bs @ replicate n (of_nat n)" by (simp add: pkcs7_pad_def Let_def n_def)
  have l: "last (bs @ replicate n (of_nat n :: 8 word)) = of_nat n" using n by simp
  show ?thesis
    unfolding pkcs7_unpad_def p Let_def using n u l by auto
qed

lemma encrypt_decrypt:
  assumes cipher: "\<forall>k b. length k = 32 \<and> length b = 16 \<longrightarrow> length (E k b) = 16 \<and> D k (E k b) = b"
    and json: "parse (stringify data) = Some data"
    and key: "length (hex_decode password) = 32"
    and rnd: "length random16 = 16"
  shows "\<exists>r. encrypt E stringify random16 data password = Inr r
             \<and> decrypt D parse (encryptedData r) (iv r) password = Inr data"
proof -
  let ?key = "hex_decode password"
  let ?padded = "pkcs7_pad (stringify data)"
  let ?n = "length (stringify data) div 16 + 1"
  let ?ct = "cbc_encrypt E ?key random16 ?padded ?n"
  let ?r = "\<lparr>iv = hex_encode random16, encryptedData = hex_encode ?ct\<rparr>"
  have lp: "length ?padded = 16 * ?n" by (rule length_pkcs7_pad)
  then have n: "length ?padded div 16 = ?n" by simp
  have E16: "\<forall>b. length b = 16 \<longrightarrow> length (E ?key b) = 16 \<and> D ?key (E ?key b) = b"
    using cipher key by simp
  then have E16': "\<forall>b. length b = 16 \<longrightarrow> length (E ?key b) = 16" by simp
  have lct: "length ?ct = 16 * ?n" using length_cbc_encrypt [of E ?key random16 ?padded ?n] E16' rnd lp by blast
  have rt: "cbc_decrypt D ?key random16 ?ct ?n = ?padded" using cbc_roundtrip [of E ?key D random16 ?padded ?n] E16 rnd lp by blast
  have enc: "encrypt E stringify random16 data password = Inr ?r"
    using key rnd n by (simp add: encrypt_def Let_def)
  have "decrypt D parse (hex_encode ?ct) (hex_encode random16) password = Inr data"
    using key rnd lct rt json
    by (simp add: decrypt_def Let_def hex_decode_encode pkcs7_unpad_pad)
  then have "decrypt D parse (encryptedData ?r) (iv ?r) password = Inr data" by simp
  with enc show ?thesis by blast
qed

subsection \<open>Facts about the concrete states\<close>

lemma demo_deployed_ok: "\<not> reverts (Token_constructor (tx_env 1 100) ''Demo'' ''DMO'' 1000)"
  by (simp add: reverts_def Token_constructor_def Token_initial_def ERC20_mint_internal_def
        checked_add_def tx_env_def)

lemma demo_deployed_eq:
  "demo_deployed = (Token_initial (tx_env 1 100) ''Demo'' ''DMO'')
     \<lparr>totalSupply := 1000, balances := (\<lambda>a. 0)(1 := 1000),
      securityExemptions := (\<lambda>a. False)(1 := True),
      maxTransactionLimit := 1000, maxWalletLimit := 1000, lastProtocolUpdate := 100\<rparr>"
  by (simp add: demo_deployed_def commit_def Token_constructor_def Token_initial_def
        ERC20_mint_internal_def checked_add_def tx_env_def)

lemma demo_funded_ok: "\<not> reverts (Token_exec (tx_env 1 101) (Transfer 2 300) demo_deployed)"
  by (simp add: demo_deployed_eq reverts_def Token_transfer_def Token_transfer_internal_def
        Token_shouldApplyEmergencyProtocol_def tradingRestrictions_def Token_recordInteraction_def
        ERC20_transfer_internal_def checked_add_def Token_initial_def tx_env_def Let_def)

lemma demo_deployed_supply: "supply_inv demo_deployed"
  using Token_constructor_supply [of "tx_env 1 100" "''Demo''" "''DMO''" 1000 demo_deployed]
    not_reverts_commit [OF demo_deployed_ok] by (simp add: demo_deployed_def)

lemma demo_funded_supply: "supply_inv demo_funded"
  using Token_exec_supply [OF demo_deployed_supply, of "tx_env 1 101" "Transfer 2 300" demo_funded]
    not_reverts_commit [OF demo_funded_ok] by (simp add: demo_funded_def)

lemma demo_funded_eq:
  "demo_funded = demo_deployed
     \<lparr>balances := (\<lambda>a. 0)(1 := 700, 2 := 300),
      protocolData := (protocolData demo_deployed)(0 :=
         \<lparr>interactionType = 4, userAddress = 1, metadata = 0, timestamp = 101\<rparr>),
      userInteractions := (\<lambda>a. [])(1 := [0]), totalInteractions := 1\<rparr>"
  by (simp add: demo_funded_def commit_def demo_deployed_eq Token_transfer_def Token_transfer_internal_def
        Token_shouldApplyEmergencyProtocol_def tradingRestrictions_def Token_recordInteraction_def
        ERC20_transfer_internal_def checked_add_def Token_initial_def tx_env_def Let_def)

lemma bridge_deployed_ok: "\<not> reverts (Bridge_constructor (tx_env 1 100) ''BridgeUSDT'' ''USDT'' 1000)"
  by (simp add: reverts_def Bridge_constructor_def Bridge_initial_def ERC20_mint_internal_def
        checked_add_def tx_env_def)

lemma bridge_deployed_eq:
  "bridge_deployed = (Bridge_initial (tx_env 1 100) ''BridgeUSDT'' ''USDT'')
     \<lparr>totalSupply := 1000, balances := (\<lambda>a. 0)(1 := 1000),
      securityExemptions := (\<lambda>a. False)(1 := True),
      maxTransactionLimit := 1000, maxWalletLimit := 1000,
      systemAdmins := (\<lambda>a. \<lparr>isActive = False, accessLevel = 0, lastActivity = 0\<rparr>)
                        (1 := \<lparr>isActive = True, accessLevel = 5, lastActivity = 100\<rparr>),
      lastMaintenanceTime := 100, systemEfficiencyScore := 100, integrityCheckInterval := 604800,
      networkQualityIndex := 95, feeCollectionAddress := 1, priorityResourceManager := 1\<rparr>"
  by (simp add: bridge_deployed_def commit_def Bridge_constructor_def Bridge_initial_def
        ERC20_mint_internal_def checked_add_def tx_env_def)

lemma bridge_deployed_supply: "supply_inv bridge_deployed"
  using Bridge_constructor_supply [of "tx_env 1 100" "''BridgeUSDT''" "''USDT''" 1000 bridge_deployed]
    not_reverts_commit [OF bridge_deployed_ok] by (simp add: bridge_deployed_def)

lemma demo_pause_ok: "\<not> reverts (pause (tx_env 1 102) demo_funded)"
  by (simp add: reverts_def pause_def Pausable_pause_internal_def demo_funded_eq demo_deployed_eq
        Token_initial_def tx_env_def)

lemma bridge_pause_ok: "\<not> reverts (pause (tx_env 1 101) bridge_deployed)"
  by (simp add: reverts_def pause_def Pausable_pause_internal_def bridge_deployed_eq
        Bridge_initial_def tx_env_def)

lemma demo_unpause_ok: "\<not> reverts (unpause (tx_env 1 104) demo_paused)"
  by (simp add: reverts_def unpause_def pause_def Pausable_pause_internal_def
        Pausable_unpause_internal_def demo_paused_def commit_def demo_funded_eq demo_deployed_eq
        Token_initial_def tx_env_def)

lemma demo_setMax_ok:
  "\<not> reverts (setMaxTransactionLimit (tx_env 1 102) 50 demo_funded)"
  "\<not> reverts (setMaxWalletLimit (tx_env 1 102) 50 demo_funded)"
  "\<not> reverts (setMaxTransactionLimit (tx_env 1 102) 50 bridge_deployed)"
  "\<not> reverts (setMaxWalletLimit (tx_env 1 102) 50 bridge_deployed)"
  by (simp_all add: reverts_def setMaxTransactionLimit_def setMaxWalletLimit_def demo_funded_eq
        demo_deployed_eq bridge_deployed_eq Bridge_initial_def Token_initial_def tx_env_def)

lemma demo_minted_ok: "\<not> reverts (Token_allocateProtocolReserves (tx_env 1 102) 3 5000 demo_funded)"
  by (simp add: reverts_def Token_allocateProtocolReserves_def ERC20_mint_internal_def
        Token_recordInteraction_def checked_add_def Let_def demo_funded_eq demo_deployed_eq
        Token_initial_def tx_env_def)

lemma bridge_minted_ok: "\<not> reverts (Bridge_allocateProtocolReserves (tx_env 1 102) 3 5000 bridge_deployed)"
  by (simp add: reverts_def Bridge_allocateProtocolReserves_def ERC20_mint_internal_def
        checked_add_def checked_mul_def Let_def bridge_deployed_eq Bridge_initial_def tx_env_def)

lemma demo_excluded_ok: "\<not> reverts (enhanceParticipantSecurity (tx_env 1 102) [2] demo_funded)"
  by (simp add: reverts_def enhanceParticipantSecurity_def demo_funded_eq demo_deployed_eq
        Token_initial_def tx_env_def)

lemma bridge_excluded_ok: "\<not> reverts (enhanceParticipantSecurity (tx_env 1 102) [2] bridge_deployed)"
  by (simp add: reverts_def enhanceParticipantSecurity_def bridge_deployed_eq
        Bridge_initial_def tx_env_def)

lemma demo_excluded_eq: "demo_excluded = demo_funded\<lparr>protocolExclusions := (\<lambda>a. False)(2 := True)\<rparr>"
  by (simp add: demo_excluded_def commit_def enhanceParticipantSecurity_def demo_funded_eq demo_deployed_eq
        Token_initial_def tx_env_def)

lemma demo_excluded_paused_eq: "demo_excluded_paused = demo_excluded\<lparr>paused := True\<rparr>"
  by (simp add: demo_excluded_paused_def commit_def pause_def Pausable_pause_internal_def
        demo_excluded_eq demo_funded_eq demo_deployed_eq Token_initial_def tx_env_def)

lemmas demo_eval = commit_def reverts_def tx_env_def Let_def checked_add_def checked_mul_def
  Token_initial_def Bridge_initial_def Token_transfer_def Token_transfer_internal_def
  Token_shouldApplyEmergencyProtocol_def tradingRestrictions_def Token_recordInteraction_def
  ERC20_transfer_internal_def Bridge_transfer_def Bridge_transfer_internal_def
  Token_optimizeProtocolPerformance_def Bridge_optimizeProtocolPerformance_def
  transferOwnership_def setTradingStatus_def

lemma demo_emergency_eq:
  "demo_emergency = demo_funded\<lparr>lastProtocolUpdate := 102, securityLevel := 5, emergencyModeActive := True\<rparr>"
  by (simp add: demo_emergency_def demo_funded_eq demo_deployed_eq demo_eval)

lemma bridge_funded_eq: "bridge_funded = bridge_deployed\<lparr>balances := (\<lambda>a. 0)(1 := 700, 2 := 300)\<rparr>"
  by (simp add: bridge_funded_def bridge_deployed_eq demo_eval)

lemma bridge_open_eq:
  "bridge_open = bridge_funded\<lparr>lastMaintenanceTime := 102, networkQualityIndex := 99,
                               resourceOptimizationWindow := 31536102\<rparr>"
  by (simp add: bridge_open_def bridge_funded_eq bridge_deployed_eq demo_eval)

lemma bridge_handed_eq: "bridge_handed = bridge_funded\<lparr>owner := 2\<rparr>"
  by (simp add: bridge_handed_def bridge_funded_eq bridge_deployed_eq demo_eval)

lemma bridge_handed_open_eq:
  "bridge_handed_open = bridge_handed\<lparr>lastMaintenanceTime := 103, networkQualityIndex := 99,
                               resourceOptimizationWindow := 31536103, tradingEnabled := True\<rparr>"
  by (simp add: bridge_handed_open_def bridge_handed_eq bridge_funded_eq bridge_deployed_eq demo_eval)

lemma demo_emergency_supply: "supply_inv demo_emergency"
  using demo_funded_supply by (simp add: demo_emergency_eq supply_inv_def sum_balances_def)

lemma bridge_funded_ok: "\<not> reverts (Bridge_transfer (tx_env 1 101) 2 300 bridge_deployed)"
  by (simp add: bridge_deployed_eq demo_eval)

lemma bridge_funded_supply: "supply_inv bridge_funded"
  using Bridge_transfer_internal_supply [OF bridge_deployed_supply, of "tx_env 1 101" 1 2 300 bridge_funded]
    not_reverts_commit [OF bridge_funded_ok, of bridge_deployed]
  by (simp add: bridge_funded_def Bridge_transfer_def tx_env_def)

lemma bridge_open_supply: "supply_inv bridge_open"
  using bridge_funded_supply by (simp add: bridge_open_eq supply_inv_def sum_balances_def)

lemma demo_drained_ok: "\<not> reverts (Token_transfer (tx_env 2 103) 3 10 demo_emergency)"
  by (simp add: demo_emergency_eq demo_funded_eq demo_deployed_eq demo_eval)

lemma bridge_drained_ok: "\<not> reverts (Bridge_transfer (tx_env 2 103) 3 10 bridge_open)"
  by (simp add: bridge_open_eq bridge_funded_eq bridge_deployed_eq demo_eval)

lemma demo_sent_ok: "\<not> reverts (Token_transfer (tx_env 1 102) 3 10 demo_funded)"
  by (simp add: demo_funded_eq demo_deployed_eq demo_eval)

lemma bridge_locked_facts:
  "penaltyAmounts bridge_locked = penaltyAmounts_initial"
  "userSecurity bridge_locked 2 = \<lparr>pinHash = 1, salt = 0, failedAttempts = 7, lastAttemptTime = 200,
       lockUntil = 86600, paidPenalties = False\<rparr>"
  "failedAttempts (userSecurity bridge_locked 3) = 0"
  "feeCollectionAddress bridge_locked = 1"
  by (simp_all add: bridge_locked_def bridge_deployed_eq Bridge_initial_def tx_env_def)

lemma bridge_locked_quote:
  "Bridge_penaltyQuote 0 (userSecurity bridge_locked 2) (penaltyAmounts bridge_locked) = Inr (USDT, 100 * ether)"
proof -
  have n: "\<not> (17 :: uint256) \<le> 1" by (simp add: word_le_nat_alt)
  show ?thesis
    by (simp add: bridge_locked_facts Bridge_penaltyQuote_def penaltyAmounts_initial_def Let_def
          checked_sub_def n)
qed

lemma toy_cipher_inverse:
  "\<forall>k b. length k = 32 \<and> length b = 16 \<longrightarrow>
     length (toy_cipher k b) = 16 \<and> toy_cipher k (toy_cipher k b) = b"
  by (simp add: toy_cipher_def length_xor_block xor_block_cancel)

lemma demo_password_key: "length (hex_decode demo_password) = 32"
  by (simp add: demo_password_def hex_value_def)

subsection \<open>C1: the redirect of transfers in emergency mode\<close>

text \<open>
  C1. For every transfer that does not revert, made while emergencyModeActive is
  true by a sender that is not exempt, the template moves the whole amount from the sender
  to the owner (nothing changes when the sender is the owner) and leaves every other
  balance as it was: the named recipient receives nothing, and its balance is unchanged
  unless it is the sender or the owner. BridgeUSDTToken does the same towards
  feeCollectionAddress while block.timestamp is before the end of the resource-optimization
  window, for a sender that is not exempt and is neither owner() nor the priority resource
  manager.
\<close>

theorem C1_emergency_redirect:
  "(supply_inv s \<and> emergencyModeActive s \<and> \<not> securityExemptions s src
      \<and> Token_transfer_internal e src dst amount s = Inr s' \<longrightarrow>
      (src \<noteq> owner s \<longrightarrow> unat (balances s' (owner s)) = unat (balances s (owner s)) + unat amount
                         \<and> unat (balances s' src) + unat amount = unat (balances s src))
      \<and> (src = owner s \<longrightarrow> balances s' = balances s)
      \<and> (\<forall>a. a \<noteq> src \<and> a \<noteq> owner s \<longrightarrow> balances s' a = balances s a)) \<and>
   (supply_inv b \<and> block_timestamp e < resourceOptimizationWindow b \<and> \<not> securityExemptions b src
      \<and> src \<noteq> owner b \<and> src \<noteq> priorityResourceManager b
      \<and> Bridge_transfer_internal e src dst amount b = Inr b' \<longrightarrow>
      (src \<noteq> feeCollectionAddress b \<longrightarrow>
           unat (balances b' (feeCollectionAddress b)) = unat (balances b (feeCollectionAddress b)) + unat amount
         \<and> unat (balances b' src) + unat amount = unat (balances b src))
      \<and> (src = feeCollectionAddress b \<longrightarrow> balances b' = balances b)
      \<and> (\<forall>a. a \<noteq> src \<and> a \<noteq> feeCollectionAddress b \<longrightarrow> balances b' a = balances b a))"
proof -
  have t: "supply_inv s \<and> emergencyModeActive s \<and> \<not> securityExemptions s src
      \<and> Token_transfer_internal e src dst amount s = Inr s' \<longrightarrow>
      (src \<noteq> owner s \<longrightarrow> unat (balances s' (owner s)) = unat (balances s (owner s)) + unat amount
                         \<and> unat (balances s' src) + unat amount = unat (balances s src))
      \<and> (src = owner s \<longrightarrow> balances s' = balances s)
      \<and> (\<forall>a. a \<noteq> src \<and> a \<noteq> owner s \<longrightarrow> balances s' a = balances s a)"
  proof (intro impI, elim conjE)
    assume a: "supply_inv s" "emergencyModeActive s" "\<not> securityExemptions s src"
      "Token_transfer_internal e src dst amount s = Inr s'"
    from Token_transfer_internal_cases(2) [OF a(4)] a(2,3)
    have r: "ERC20_transfer_internal src (owner s) amount s = Inr s'" by simp
    from transfer_effect(1,2,3) [OF a(1) r]
    show "(src \<noteq> owner s \<longrightarrow> unat (balances s' (owner s)) = unat (balances s (owner s)) + unat amount
                         \<and> unat (balances s' src) + unat amount = unat (balances s src))
      \<and> (src = owner s \<longrightarrow> balances s' = balances s)
      \<and> (\<forall>a. a \<noteq> src \<and> a \<noteq> owner s \<longrightarrow> balances s' a = balances s a)"
      by simp
  qed
  have b: "supply_inv b \<and> block_timestamp e < resourceOptimizationWindow b \<and> \<not> securityExemptions b src
      \<and> src \<noteq> owner b \<and> src \<noteq> priorityResourceManager b
      \<and> Bridge_transfer_internal e src dst amount b = Inr b' \<longrightarrow>
      (src \<noteq> feeCollectionAddress b \<longrightarrow>
           unat (balances b' (feeCollectionAddress b)) = unat (balances b (feeCollectionAddress b)) + unat amount
         \<and> unat (balances b' src) + unat amount = unat (balances b src))
      \<and> (src = feeCollectionAddress b \<longrightarrow> balances b' = balances b)
      \<and> (\<forall>a. a \<noteq> src \<and> a \<noteq> feeCollectionAddress b \<longrightarrow> balances b' a = balances b a)"
  proof (intro impI, elim conjE)
    assume a: "supply_inv b" "block_timestamp e < resourceOptimizationWindow b"
      "\<not> securityExemptions b src" "src \<noteq> owner b" "src \<noteq> priorityResourceManager b"
      "Bridge_transfer_internal e src dst amount b = Inr b'"
    from Bridge_transfer_internal_cases(2) [OF a(6)] a(2,3,4,5)
    have r: "ERC20_transfer_internal src (feeCollectionAddress b) amount b = Inr b'" by simp
    from transfer_effect(1,2,3) [OF a(1) r]
    show "(src \<noteq> feeCollectionAddress b \<longrightarrow>
           unat (balances b' (feeCollectionAddress b)) = unat (balances b (feeCollectionAddress b)) + unat amount
         \<and> unat (balances b' src) + unat amount = unat (balances b src))
      \<and> (src = feeCollectionAddress b \<longrightarrow> balances b' = balances b)
      \<and> (\<forall>a. a \<noteq> src \<and> a \<noteq> feeCollectionAddress b \<longrightarrow> balances b' a = balances b a)"
      by simp
  qed
  from t b show ?thesis by blast
qed

theorem C1_emergency_redirect_witness:
  "supply_inv demo_emergency \<and> emergencyModeActive demo_emergency \<and> \<not> securityExemptions demo_emergency 2
   \<and> Token_transfer_internal (tx_env 2 103) 2 3 10 demo_emergency = Inr demo_drained
   \<and> owner demo_emergency = 1
   \<and> unat (balances demo_drained 1) = 710 \<and> unat (balances demo_drained 2) = 290
   \<and> balances demo_drained 3 = balances demo_emergency 3
   \<and> supply_inv bridge_open \<and> block_timestamp (tx_env 2 103) < resourceOptimizationWindow bridge_open
   \<and> \<not> securityExemptions bridge_open 2 \<and> 2 \<noteq> owner bridge_open \<and> 2 \<noteq> priorityResourceManager bridge_open
   \<and> Bridge_transfer_internal (tx_env 2 103) 2 3 10 bridge_open = Inr bridge_drained
   \<and> feeCollectionAddress bridge_open = 1
   \<and> unat (balances bridge_drained 1) = 710 \<and> unat (balances bridge_drained 2) = 290
   \<and> balances bridge_drained 3 = balances bridge_open 3"
proof -
  have t: "Token_transfer_internal (tx_env 2 103) 2 3 10 demo_emergency = Inr demo_drained"
    using not_reverts_commit [OF demo_drained_ok, of demo_emergency]
    by (simp add: demo_drained_def Token_transfer_def tx_env_def)
  have b: "Bridge_transfer_internal (tx_env 2 103) 2 3 10 bridge_open = Inr bridge_drained"
    using not_reverts_commit [OF bridge_drained_ok, of bridge_open]
    by (simp add: bridge_drained_def Bridge_transfer_def tx_env_def)
  have ft: "emergencyModeActive demo_emergency" "\<not> securityExemptions demo_emergency 2"
    "owner demo_emergency = 1" "unat (balances demo_emergency 1) = 700"
    "unat (balances demo_emergency 2) = 300"
    by (simp_all add: demo_emergency_eq demo_funded_eq demo_deployed_eq Token_initial_def tx_env_def)
  have fb: "block_timestamp (tx_env 2 103) < resourceOptimizationWindow bridge_open"
    "\<not> securityExemptions bridge_open 2" "2 \<noteq> owner bridge_open" "2 \<noteq> priorityResourceManager bridge_open"
    "feeCollectionAddress bridge_open = 1" "unat (balances bridge_open 1) = 700"
    "unat (balances bridge_open 2) = 300"
    by (simp_all add: bridge_open_eq bridge_funded_eq bridge_deployed_eq Bridge_initial_def tx_env_def)
  show ?thesis
    using C1_emergency_redirect [of demo_emergency 2 "tx_env 2 103" 3 10 demo_drained bridge_open bridge_drained]
      t b ft fb demo_emergency_supply bridge_open_supply
    by simp
qed

theorem C1_redirect_counterexample:
  "block_timestamp (tx_env 2 105) < resourceOptimizationWindow bridge_handed_open
   \<and> \<not> securityExemptions bridge_handed_open 2
   \<and> feeCollectionAddress bridge_handed_open = 1
   \<and> \<not> reverts (Bridge_transfer (tx_env 2 105) 3 10 bridge_handed_open)
   \<and> balances bridge_handed_open 3 = 0
   \<and> balances (commit bridge_handed_open (Bridge_transfer (tx_env 2 105) 3 10 bridge_handed_open)) 3 = 10
   \<and> balances bridge_handed_open 1 = 700
   \<and> balances (commit bridge_handed_open (Bridge_transfer (tx_env 2 105) 3 10 bridge_handed_open)) 1 = 700
   \<and> emergencyModeActive demo_emergency \<and> \<not> securityExemptions demo_emergency 2
   \<and> \<not> reverts (Token_transfer (tx_env 2 103) 1 10 demo_emergency)
   \<and> balances demo_emergency 1 = 700
   \<and> balances (commit demo_emergency (Token_transfer (tx_env 2 103) 1 10 demo_emergency)) 1 = 710"
  by (simp add: bridge_handed_open_eq bridge_handed_eq bridge_funded_eq bridge_deployed_eq
        demo_emergency_eq demo_funded_eq demo_deployed_eq demo_eval)

subsection \<open>C2: conservation of transfers\<close>

text \<open>
  C2. A transfer of v from A to B, with A and B different, that does not
  revert and is not redirected (in the template: emergencyModeActive is false or A is
  exempt; in BridgeUSDTToken: the window is closed, or A is exempt, the owner or the
  priority resource manager) decreases the balance of A by exactly v, increases the
  balance of B by exactly v, and changes no other balance.
\<close>

theorem C2_plain_transfer_conserves:
  "(supply_inv s \<and> \<not> (emergencyModeActive s \<and> \<not> securityExemptions s src) \<and> src \<noteq> dst
      \<and> Token_transfer_internal e src dst amount s = Inr s' \<longrightarrow>
      amount \<le> balances s src
      \<and> unat (balances s' src) + unat amount = unat (balances s src)
      \<and> unat (balances s' dst) = unat (balances s dst) + unat amount
      \<and> (\<forall>a. a \<noteq> src \<and> a \<noteq> dst \<longrightarrow> balances s' a = balances s a)) \<and>
   (supply_inv b \<and> \<not> (block_timestamp e < resourceOptimizationWindow b \<and> \<not> securityExemptions b src
                      \<and> src \<noteq> owner b \<and> src \<noteq> priorityResourceManager b) \<and> src \<noteq> dst
      \<and> Bridge_transfer_internal e src dst amount b = Inr b' \<longrightarrow>
      amount \<le> balances b src
      \<and> unat (balances b' src) + unat amount = unat (balances b src)
      \<and> unat (balances b' dst) = unat (balances b dst) + unat amount
      \<and> (\<forall>a. a \<noteq> src \<and> a \<noteq> dst \<longrightarrow> balances b' a = balances b a))"
proof -
  have t: "supply_inv s \<and> \<not> (emergencyModeActive s \<and> \<not> securityExemptions s src) \<and> src \<noteq> dst
      \<and> Token_transfer_internal e src dst amount s = Inr s' \<longrightarrow>
      amount \<le> balances s src
      \<and> unat (balances s' src) + unat amount = unat (balances s src)
      \<and> unat (balances s' dst) = unat (balances s dst) + unat amount
      \<and> (\<forall>a. a \<noteq> src \<and> a \<noteq> dst \<longrightarrow> balances s' a = balances s a)"
  proof (intro impI, elim conjE)
    assume a: "supply_inv s" "\<not> (emergencyModeActive s \<and> \<not> securityExemptions s src)" "src \<noteq> dst"
      "Token_transfer_internal e src dst amount s = Inr s'"
    from Token_transfer_internal_cases(3) [OF a(4) a(2)] obtain s1 where
      f: "balances s1 = balances s" "totalSupply s1 = totalSupply s"
      and r: "ERC20_transfer_internal src dst amount s1 = Inr s'" by blast
    have i: "supply_inv s1" using f a(1) by (rule supply_inv_eqI)
    from transfer_effect(1,3,4) [OF i r] a(3) f
    show "amount \<le> balances s src
      \<and> unat (balances s' src) + unat amount = unat (balances s src)
      \<and> unat (balances s' dst) = unat (balances s dst) + unat amount
      \<and> (\<forall>a. a \<noteq> src \<and> a \<noteq> dst \<longrightarrow> balances s' a = balances s a)"
      by simp
  qed
  have b: "supply_inv b \<and> \<not> (block_timestamp e < resourceOptimizationWindow b \<and> \<not> securityExemptions b src
                      \<and> src \<noteq> owner b \<and> src \<noteq> priorityResourceManager b) \<and> src \<noteq> dst
      \<and> Bridge_transfer_internal e src dst amount b = Inr b' \<longrightarrow>
      amount \<le> balances b src
      \<and> unat (balances b' src) + unat amount = unat (balances b src)
      \<and> unat (balances b' dst) = unat (balances b dst) + unat amount
      \<and> (\<forall>a. a \<noteq> src \<and> a \<noteq> dst \<longrightarrow> balances b' a = balances b a)"
  proof (intro impI, elim conjE)
    assume a: "supply_inv b" "\<not> (block_timestamp e < resourceOptimizationWindow b \<and> \<not> securityExemptions b src
                      \<and> src \<noteq> owner b \<and> src \<noteq> priorityResourceManager b)" "src \<noteq> dst"
      "Bridge_transfer_internal e src dst amount b = Inr b'"
    from Bridge_transfer_internal_cases(3) [OF a(4) a(2)]
    have r: "ERC20_transfer_internal src dst amount b = Inr b'" .
    from transfer_effect(1,3,4) [OF a(1) r] a(3)
    show "amount \<le> balances b src
      \<and> unat (balances b' src) + unat amount = unat (balances b src)
      \<and> unat (balances b' dst) = unat (balances b dst) + unat amount
      \<and> (\<forall>a. a \<noteq> src \<and> a \<noteq> dst \<longrightarrow> balances b' a = balances b a)"
      by simp
  qed
  from t b show ?thesis by blast
qed

theorem C2_plain_transfer_conserves_witness:
  "supply_inv demo_funded
   \<and> \<not> (emergencyModeActive demo_funded \<and> \<not> securityExemptions demo_funded 1) \<and> (1 :: address) \<noteq> 3
   \<and> Token_transfer_internal (tx_env 1 102) 1 3 10 demo_funded = Inr demo_sent
   \<and> unat (balances demo_sent 1) = 690 \<and> unat (balances demo_sent 3) = 10
   \<and> balances demo_sent 2 = balances demo_funded 2
   \<and> supply_inv bridge_deployed
   \<and> \<not> (block_timestamp (tx_env 1 101) < resourceOptimizationWindow bridge_deployed
         \<and> \<not> securityExemptions bridge_deployed 1 \<and> 1 \<noteq> owner bridge_deployed
         \<and> 1 \<noteq> priorityResourceManager bridge_deployed)
   \<and> Bridge_transfer_internal (tx_env 1 101) 1 2 300 bridge_deployed = Inr bridge_funded
   \<and> unat (balances bridge_funded 1) = 700 \<and> unat (balances bridge_funded 2) = 300
   \<and> balances bridge_funded 3 = balances bridge_deployed 3"
proof -
  have t: "Token_transfer_internal (tx_env 1 102) 1 3 10 demo_funded = Inr demo_sent"
    using not_reverts_commit [OF demo_sent_ok, of demo_funded]
    by (simp add: demo_sent_def Token_transfer_def tx_env_def)
  have b: "Bridge_transfer_internal (tx_env 1 101) 1 2 300 bridge_deployed = Inr bridge_funded"
    using not_reverts_commit [OF bridge_funded_ok, of bridge_deployed]
    by (simp add: bridge_funded_def Bridge_transfer_def tx_env_def)
  have ft: "\<not> (emergencyModeActive demo_funded \<and> \<not> securityExemptions demo_funded 1)"
    "unat (balances demo_funded 1) = 700" "unat (balances demo_funded 3) = 0"
    by (simp_all add: demo_funded_eq demo_deployed_eq Token_initial_def)
  have fb: "\<not> (block_timestamp (tx_env 1 101) < resourceOptimizationWindow bridge_deployed
         \<and> \<not> securityExemptions bridge_deployed 1 \<and> 1 \<noteq> owner bridge_deployed
         \<and> 1 \<noteq> priorityResourceManager bridge_deployed)"
    "unat (balances bridge_deployed 1) = 1000" "unat (balances bridge_deployed 2) = 0"
    by (simp_all add: bridge_deployed_eq Bridge_initial_def tx_env_def)
  have ne: "(1 :: address) \<noteq> 3" "(1 :: address) \<noteq> 2" "(2 :: address) \<noteq> 3" by simp_all
  note T = C2_plain_transfer_conserves [of demo_funded 1 3 "tx_env 1 102" 10 demo_sent]
  note B = C2_plain_transfer_conserves [of _ 1 2 "tx_env 1 101" 300 _ bridge_deployed bridge_funded]
  have rt: "unat (balances demo_sent 1) + 10 = 700 \<and> unat (balances demo_sent 3) = 10
            \<and> balances demo_sent 2 = balances demo_funded 2"
    using T t ft ne demo_funded_supply by simp
  have rb: "unat (balances bridge_funded 1) + 300 = 1000 \<and> unat (balances bridge_funded 2) = 300
            \<and> balances bridge_funded 3 = balances bridge_deployed 3"
    using B b fb ne bridge_deployed_supply by simp
  show ?thesis using rt rb t b ft fb demo_funded_supply bridge_deployed_supply by simp
qed

theorem C2_drain_counterexample:
  "emergencyModeActive demo_emergency \<and> \<not> securityExemptions demo_emergency 2
   \<and> 10 \<le> balances demo_emergency 2
   \<and> Token_transfer (tx_env 2 103) 3 10 demo_emergency = Inr demo_drained
   \<and> balances demo_emergency 3 = 0 \<and> balances demo_drained 3 = 0
   \<and> owner demo_emergency = 1
   \<and> balances demo_emergency 1 = 700 \<and> balances demo_drained 1 = 710"
proof -
  have t: "Token_transfer (tx_env 2 103) 3 10 demo_emergency = Inr demo_drained"
    using not_reverts_commit [OF demo_drained_ok, of demo_emergency] by (simp add: demo_drained_def)
  have r: "emergencyModeActive demo_emergency \<and> \<not> securityExemptions demo_emergency 2
   \<and> 10 \<le> balances demo_emergency 2 \<and> balances demo_emergency 3 = 0 \<and> balances demo_drained 3 = 0
   \<and> owner demo_emergency = 1 \<and> balances demo_emergency 1 = 700 \<and> balances demo_drained 1 = 710"
    by (simp add: demo_drained_def demo_emergency_eq demo_funded_eq demo_deployed_eq demo_eval)
  from t r show ?thesis by simp
qed

subsection \<open>C3: allocateProtocolReserves is a mint\<close>

text \<open>
  C3. A successful call of allocateProtocolReserves(to, amount) is a call of the owner with
  a non-zero \<^verbatim>\<open>to\<close>; it increases totalSupply by exactly amount and the balance of \<^verbatim>\<open>to\<close> by
  exactly amount (as natural numbers, in every state that satisfies the supply invariant),
  and leaves every other balance as it was: a mint, in the template and in BridgeUSDTToken.
\<close>

theorem C3_allocateProtocolReserves_mints:
  "(supply_inv s \<and> Token_allocateProtocolReserves e dst amount s = Inr s' \<longrightarrow>
      msg_sender e = owner s \<and> dst \<noteq> 0
      \<and> unat (totalSupply s') = unat (totalSupply s) + unat amount
      \<and> unat (balances s' dst) = unat (balances s dst) + unat amount
      \<and> (\<forall>a. a \<noteq> dst \<longrightarrow> balances s' a = balances s a)) \<and>
   (supply_inv b \<and> Bridge_allocateProtocolReserves e dst amount b = Inr b' \<longrightarrow>
      msg_sender e = owner b \<and> dst \<noteq> 0
      \<and> unat (totalSupply b') = unat (totalSupply b) + unat amount
      \<and> unat (balances b' dst) = unat (balances b dst) + unat amount
      \<and> (\<forall>a. a \<noteq> dst \<longrightarrow> balances b' a = balances b a))"
  using Token_allocate_effect [of s e dst amount s'] Bridge_allocate_effect [of b e dst amount b']
  by blast

theorem C3_allocateProtocolReserves_mints_witness:
  "supply_inv demo_funded
   \<and> Token_allocateProtocolReserves (tx_env 1 102) 3 5000 demo_funded = Inr demo_minted
   \<and> unat (totalSupply demo_minted) = 6000 \<and> unat (balances demo_minted 3) = 5000
   \<and> supply_inv bridge_deployed
   \<and> Bridge_allocateProtocolReserves (tx_env 1 102) 3 5000 bridge_deployed = Inr bridge_minted
   \<and> unat (totalSupply bridge_minted) = 6000 \<and> unat (balances bridge_minted 3) = 5000"
proof -
  have t: "Token_allocateProtocolReserves (tx_env 1 102) 3 5000 demo_funded = Inr demo_minted"
    unfolding demo_minted_def Token_run.simps Token_exec.simps
    by (rule not_reverts_commit [OF demo_minted_ok])
  have b: "Bridge_allocateProtocolReserves (tx_env 1 102) 3 5000 bridge_deployed = Inr bridge_minted"
    unfolding bridge_minted_def by (rule not_reverts_commit [OF bridge_minted_ok])
  have v: "unat (totalSupply demo_funded) = 1000" "unat (balances demo_funded 3) = 0"
    "unat (totalSupply bridge_deployed) = 1000" "unat (balances bridge_deployed 3) = 0"
    by (simp_all add: demo_funded_eq demo_deployed_eq bridge_deployed_eq Token_initial_def Bridge_initial_def)
  show ?thesis
    using C3_allocateProtocolReserves_mints [of demo_funded "tx_env 1 102" 3 5000 demo_minted
        bridge_deployed bridge_minted] t b v demo_funded_supply bridge_deployed_supply
    by simp
qed

subsection \<open>C4: excluded senders\<close>

text \<open>
  C4. After a successful owner call of enhanceParticipantSecurity(participants),
  and after any further sequence of calls to the template, every transfer sent by an address
  in participants reverts, and so does every transferFrom that moves its tokens: no entry
  point clears the exclusion flag. The revert reason of transfer is "Protocol: Sender excluded
  from protocol" whenever the contract is not paused; while it is paused the pause guard runs
  first. In BridgeUSDTToken the same call sets the same flag, with the same effect on the
  transfers that follow it.
\<close>

theorem C4_excluded_senders_blocked:
  "(enhanceParticipantSecurity e ps s = Inr s1 \<and> p \<in> set ps \<and> msg_sender e1 = p \<longrightarrow>
      msg_sender e = owner s
      \<and> reverts (Token_transfer e1 dst amount (Token_run cs s1))
      \<and> reverts (Token_transferFrom e2 p dst amount (Token_run cs s1))
      \<and> (\<not> paused (Token_run cs s1) \<longrightarrow>
            Token_transfer e1 dst amount (Token_run cs s1) = Inl Protocol_Sender_excluded_from_protocol)) \<and>
   (enhanceParticipantSecurity e ps b = Inr b1 \<and> p \<in> set ps \<and> msg_sender e1 = p \<longrightarrow>
      reverts (Bridge_transfer e1 dst amount b1)
      \<and> reverts (Bridge_transferFrom e2 p dst amount b1)
      \<and> (\<not> paused b1 \<longrightarrow> Bridge_transfer e1 dst amount b1 = Inl Protocol_Sender_excluded_from_protocol))"
proof -
  have t: "enhanceParticipantSecurity e ps s = Inr s1 \<and> p \<in> set ps \<and> msg_sender e1 = p \<longrightarrow>
      msg_sender e = owner s
      \<and> reverts (Token_transfer e1 dst amount (Token_run cs s1))
      \<and> reverts (Token_transferFrom e2 p dst amount (Token_run cs s1))
      \<and> (\<not> paused (Token_run cs s1) \<longrightarrow>
            Token_transfer e1 dst amount (Token_run cs s1) = Inl Protocol_Sender_excluded_from_protocol)"
  proof (intro impI, elim conjE)
    assume a: "enhanceParticipantSecurity e ps s = Inr s1" "p \<in> set ps" "msg_sender e1 = p"
    from enhance_effect [OF a(1,2)] have o: "msg_sender e = owner s" and x: "protocolExclusions s1 p"
      by simp_all
    from x have "protocolExclusions (Token_run cs s1) p" by (rule Token_run_excluded)
    from excluded_blocks_Token [OF this] o a(3) show "msg_sender e = owner s
      \<and> reverts (Token_transfer e1 dst amount (Token_run cs s1))
      \<and> reverts (Token_transferFrom e2 p dst amount (Token_run cs s1))
      \<and> (\<not> paused (Token_run cs s1) \<longrightarrow>
            Token_transfer e1 dst amount (Token_run cs s1) = Inl Protocol_Sender_excluded_from_protocol)"
      by (simp add: Token_transfer_def)
  qed
  have b: "enhanceParticipantSecurity e ps b = Inr b1 \<and> p \<in> set ps \<and> msg_sender e1 = p \<longrightarrow>
      reverts (Bridge_transfer e1 dst amount b1)
      \<and> reverts (Bridge_transferFrom e2 p dst amount b1)
      \<and> (\<not> paused b1 \<longrightarrow> Bridge_transfer e1 dst amount b1 = Inl Protocol_Sender_excluded_from_protocol)"
  proof (intro impI, elim conjE)
    assume a: "enhanceParticipantSecurity e ps b = Inr b1" "p \<in> set ps" "msg_sender e1 = p"
    from enhance_effect [OF a(1,2)] have x: "protocolExclusions b1 p" by simp
    from excluded_blocks_Bridge [OF this] a(3) show "reverts (Bridge_transfer e1 dst amount b1)
      \<and> reverts (Bridge_transferFrom e2 p dst amount b1)
      \<and> (\<not> paused b1 \<longrightarrow> Bridge_transfer e1 dst amount b1 = Inl Protocol_Sender_excluded_from_protocol)"
      by (simp add: Bridge_transfer_def)
  qed
  from t b show ?thesis by blast
qed

theorem C4_excluded_senders_blocked_witness:
  "enhanceParticipantSecurity (tx_env 1 102) [2] demo_funded = Inr demo_excluded
   \<and> 2 \<in> set [2 :: address] \<and> msg_sender (tx_env 2 105) = 2
   \<and> \<not> paused (Token_run [(tx_env 1 103, SetTradingStatus True), (tx_env 1 104, SetExempt 2 True)] demo_excluded)
   \<and> Token_transfer (tx_env 2 105) 3 10
        (Token_run [(tx_env 1 103, SetTradingStatus True), (tx_env 1 104, SetExempt 2 True)] demo_excluded)
        = Inl Protocol_Sender_excluded_from_protocol
   \<and> reverts (Token_transferFrom (tx_env 3 105) 2 3 10
        (Token_run [(tx_env 1 103, SetTradingStatus True), (tx_env 1 104, SetExempt 2 True)] demo_excluded))
   \<and> enhanceParticipantSecurity (tx_env 1 102) [2] bridge_deployed = Inr bridge_excluded
   \<and> Bridge_transfer (tx_env 2 105) 3 10 bridge_excluded = Inl Protocol_Sender_excluded_from_protocol"
proof -
  let ?cs = "[(tx_env 1 103, SetTradingStatus True), (tx_env 1 104, SetExempt 2 True)]"
  have t: "enhanceParticipantSecurity (tx_env 1 102) [2] demo_funded = Inr demo_excluded"
    unfolding demo_excluded_def Token_run.simps Token_exec.simps
    by (rule not_reverts_commit [OF demo_excluded_ok])
  have b: "enhanceParticipantSecurity (tx_env 1 102) [2] bridge_deployed = Inr bridge_excluded"
    unfolding bridge_excluded_def by (rule not_reverts_commit [OF bridge_excluded_ok])
  have m: "msg_sender (tx_env 2 105) = 2" by (simp add: tx_env_def)
  have np: "\<not> paused (Token_run ?cs demo_excluded)"
    by (simp add: commit_def setTradingStatus_def setExempt_def demo_excluded_eq demo_funded_eq
          demo_deployed_eq Token_initial_def tx_env_def)
  have nb: "\<not> paused bridge_excluded"
    by (simp add: bridge_excluded_def commit_def enhanceParticipantSecurity_def bridge_deployed_eq
          Bridge_initial_def tx_env_def)
  show ?thesis
    using C4_excluded_senders_blocked [of "tx_env 1 102" "[2]" demo_funded demo_excluded 2
        "tx_env 2 105" 3 10 ?cs "tx_env 3 105" bridge_deployed bridge_excluded] t b m np nb
    by simp
qed

theorem C4_error_counterexample:
  "enhanceParticipantSecurity (tx_env 1 102) [2] demo_funded = Inr demo_excluded
   \<and> pause (tx_env 1 103) demo_excluded = Inr demo_excluded_paused
   \<and> Token_transfer (tx_env 2 104) 3 10 demo_excluded_paused = Inl Pausable_paused
   \<and> Token_transfer (tx_env 2 104) 3 10 demo_excluded_paused \<noteq> Inl Protocol_Sender_excluded_from_protocol"
  by (simp add: demo_excluded_paused_eq demo_excluded_eq enhanceParticipantSecurity_def pause_def
        Pausable_pause_internal_def Token_transfer_def Token_transfer_internal_def
        demo_funded_eq demo_deployed_eq Token_initial_def tx_env_def)

subsection \<open>C5: pause\<close>

text \<open>
  C5. A successful pause() is a call of the owner and leaves the contract paused. While it
  is paused every transfer reverts with "Pausable: paused", whoever the sender and the
  recipient are (exempt addresses and the owner included), and every transferFrom reverts,
  in the template and in BridgeUSDTToken. The template stays paused through every call
  other than an unpause() of the owner. A successful unpause() clears the flag and changes
  nothing else, so pause() followed by unpause() gives back the storage as it was and every
  transfer behaves as before the pause.
\<close>

theorem C5_pause_blocks_every_transfer:
  "(pause e s = Inr s1 \<longrightarrow> msg_sender e = owner s \<and> paused s1) \<and>
   (paused t \<longrightarrow> Token_transfer e1 dst amount t = Inl Pausable_paused
                \<and> reverts (Token_transferFrom e1 src dst amount t)) \<and>
   (paused b \<longrightarrow> Bridge_transfer e1 dst amount b = Inl Pausable_paused
                \<and> reverts (Bridge_transferFrom e1 src dst amount b)) \<and>
   (paused t \<and> \<not> (c = Unpause \<and> msg_sender e2 = owner t) \<longrightarrow> paused (commit t (Token_exec e2 c t))) \<and>
   (unpause e3 s1 = Inr s2 \<longrightarrow> s2 = s1\<lparr>paused := False\<rparr>) \<and>
   (pause e s = Inr s1 \<and> unpause e3 s1 = Inr s2 \<longrightarrow> s2 = s)"
proof -
  have 1: "pause e s = Inr s1 \<longrightarrow> msg_sender e = owner s \<and> paused s1"
    using pause_unpause_effect(1) [of e s s1] by auto
  have 2: "paused t \<longrightarrow> Token_transfer e1 dst amount t = Inl Pausable_paused
                \<and> reverts (Token_transferFrom e1 src dst amount t)"
    by (simp add: Token_transfer_def paused_blocks_Token paused_blocks_transferFrom)
  have 3: "paused b \<longrightarrow> Bridge_transfer e1 dst amount b = Inl Pausable_paused
                \<and> reverts (Bridge_transferFrom e1 src dst amount b)"
    by (simp add: Bridge_transfer_def paused_blocks_Bridge paused_blocks_transferFrom)
  have 4: "paused t \<and> \<not> (c = Unpause \<and> msg_sender e2 = owner t) \<longrightarrow> paused (commit t (Token_exec e2 c t))"
    using stays_paused by blast
  have 5: "unpause e3 s1 = Inr s2 \<longrightarrow> s2 = s1\<lparr>paused := False\<rparr>"
    using pause_unpause_effect(2) [of e3 s1 s2] by auto
  have 6: "pause e s = Inr s1 \<and> unpause e3 s1 = Inr s2 \<longrightarrow> s2 = s"
    using pause_unpause_effect(1) [of e s s1] pause_unpause_effect(2) [of e3 s1 s2] by auto
  from 1 2 3 4 5 6 show ?thesis by blast
qed

theorem C5_pause_blocks_every_transfer_witness:
  "pause (tx_env 1 102) demo_funded = Inr demo_paused
   \<and> paused demo_paused
   \<and> Token_transfer (tx_env 1 103) 2 10 demo_paused = Inl Pausable_paused
   \<and> reverts (Token_transferFrom (tx_env 3 103) 2 3 10 demo_paused)
   \<and> paused bridge_paused
   \<and> Bridge_transfer (tx_env 1 103) 2 10 bridge_paused = Inl Pausable_paused
   \<and> paused (commit demo_paused (Token_exec (tx_env 1 103) (SetExempt 2 True) demo_paused))
   \<and> unpause (tx_env 1 104) demo_paused = Inr demo_funded"
proof -
  have p: "pause (tx_env 1 102) demo_funded = Inr demo_paused"
    unfolding demo_paused_def Token_run.simps Token_exec.simps
    by (rule not_reverts_commit [OF demo_pause_ok])
  have bp: "pause (tx_env 1 101) bridge_deployed = Inr bridge_paused"
    unfolding bridge_paused_def by (rule not_reverts_commit [OF bridge_pause_ok])
  have u: "unpause (tx_env 1 104) demo_paused = Inr (commit demo_paused (unpause (tx_env 1 104) demo_paused))"
    by (rule not_reverts_commit [OF demo_unpause_ok])
  note T = C5_pause_blocks_every_transfer [of "tx_env 1 102" demo_funded demo_paused demo_paused
      "tx_env 1 103" 2 10 2 bridge_paused "SetExempt 2 True" "tx_env 1 103" "tx_env 1 104"
      "commit demo_paused (unpause (tx_env 1 104) demo_paused)"]
  note B = C5_pause_blocks_every_transfer [of "tx_env 1 101" bridge_deployed bridge_paused demo_paused
      "tx_env 1 103" 2 10 2 bridge_paused]
  have pd: "paused demo_paused" using T p by blast
  have pb: "paused bridge_paused" using B bp by blast
  have tf: "reverts (Token_transferFrom (tx_env 3 103) 2 3 10 demo_paused)"
    using C5_pause_blocks_every_transfer [of _ _ _ demo_paused "tx_env 3 103" 3 10 2] pd by blast
  have restored: "commit demo_paused (unpause (tx_env 1 104) demo_paused) = demo_funded"
    using T p u by blast
  show ?thesis using T p pd pb tf u restored by simp
qed

subsection \<open>C6: the supply invariant\<close>

text \<open>
  C6. The invariant \<^verbatim>\<open>totalSupply() == sum of all balances\<close> holds after the constructor
  has minted the initial supply to the deployer, and every successful call of every entry
  point of the template keeps it: transfer and transferFrom, allocateProtocolReserves (mint),
  reduceCirculatingSupply (burn), optimizeWalletCompliance (allowance-gated burn) and all
  the others. The sum is the sum of natural numbers, not a sum modulo 2^256.
\<close>

theorem C6_supply_invariant:
  "(Token_constructor e0 name_arg symbol_arg initialSupply = Inr s0 \<longrightarrow> supply_inv s0) \<and>
   (supply_inv s \<and> Token_exec e c s = Inr s' \<longrightarrow> supply_inv s')"
  using Token_constructor_supply Token_exec_supply by blast

theorem C6_supply_invariant_witness:
  "Token_constructor (tx_env 1 100) ''Demo'' ''DMO'' 1000 = Inr demo_deployed
   \<and> supply_inv demo_deployed
   \<and> Token_exec (tx_env 1 101) (Transfer 2 300) demo_deployed = Inr demo_funded
   \<and> supply_inv demo_funded"
proof -
  have c: "Token_constructor (tx_env 1 100) ''Demo'' ''DMO'' 1000 = Inr demo_deployed"
    unfolding demo_deployed_def by (rule not_reverts_commit [OF demo_deployed_ok])
  have t: "Token_exec (tx_env 1 101) (Transfer 2 300) demo_deployed = Inr demo_funded"
    unfolding demo_funded_def Token_run.simps by (rule not_reverts_commit [OF demo_funded_ok])
  have i0: "supply_inv demo_deployed"
    using C6_supply_invariant [of "tx_env 1 100" "''Demo''" "''DMO''" 1000 demo_deployed] c by blast
  have "supply_inv demo_funded"
    using C6_supply_invariant [of _ _ _ _ _ demo_deployed "tx_env 1 101" "Transfer 2 300" demo_funded] i0 t
    by blast
  with c t i0 show ?thesis by blast
qed

subsection \<open>C7: onlyOwner\<close>

text \<open>
  C7. A call of any of the twelve \<^verbatim>\<open>onlyOwner\<close> operations of the template (setPair,
  updateSecurityProtocol, optimizeProtocolPerformance, setNetworkValidator,
  enhanceParticipantSecurity, setExempt, setTradingStatus, setMaxTransactionLimit,
  setMaxWalletLimit, pause, unpause, allocateProtocolReserves) by an account that is not
  the owner reverts with "Ownable: caller is not the owner", and the storage is unchanged.
\<close>

theorem C7_onlyOwner_reverts:
  "msg_sender e \<noteq> owner s \<and> onlyOwner_call c \<longrightarrow>
     Token_exec e c s = Inl Ownable_caller_is_not_the_owner \<and> commit s (Token_exec e c s) = s"
  by (cases c) (auto simp: commit_def shared_defs Token_updateSecurityProtocol_def
        Token_optimizeProtocolPerformance_def Token_setNetworkValidator_def
        Token_allocateProtocolReserves_def)

theorem C7_onlyOwner_reverts_witness:
  "msg_sender (tx_env 2 102) \<noteq> owner demo_funded \<and> onlyOwner_call (AllocateProtocolReserves 2 1000000)
   \<and> Token_exec (tx_env 2 102) (AllocateProtocolReserves 2 1000000) demo_funded
        = Inl Ownable_caller_is_not_the_owner
   \<and> commit demo_funded (Token_exec (tx_env 2 102) (AllocateProtocolReserves 2 1000000) demo_funded)
        = demo_funded"
proof -
  have h: "msg_sender (tx_env 2 102) \<noteq> owner demo_funded"
    by (simp add: demo_funded_eq demo_deployed_eq Token_initial_def tx_env_def)
  show ?thesis
    using h C7_onlyOwner_reverts [of "tx_env 2 102" demo_funded "AllocateProtocolReserves 2 1000000"]
    by (simp add: commit_def)
qed

subsection \<open>C8: the limit setters\<close>

text \<open>
  C8. A successful call of setMaxTransactionLimit changes the stored maxTransactionLimit and
  nothing else, and a successful call of setMaxWalletLimit changes the stored maxWalletLimit
  and nothing else: the storage after the call is the storage before it with that one field
  replaced, in the template and in BridgeUSDTToken alike, so no balance, supply, exemption
  or exclusion changes.
\<close>

theorem C8_limit_setters_frame:
  "(setMaxTransactionLimit e amount s = Inr s' \<longrightarrow>
      msg_sender e = owner s \<and> s' = s\<lparr>maxTransactionLimit := amount\<rparr>) \<and>
   (setMaxWalletLimit e amount s = Inr s'' \<longrightarrow>
      msg_sender e = owner s \<and> s'' = s\<lparr>maxWalletLimit := amount\<rparr>)"
  by (auto simp: setMaxTransactionLimit_def setMaxWalletLimit_def split: if_splits)

theorem C8_limit_setters_frame_witness:
  "setMaxTransactionLimit (tx_env 1 102) 50 demo_funded = Inr (demo_funded\<lparr>maxTransactionLimit := 50\<rparr>)
   \<and> setMaxWalletLimit (tx_env 1 102) 50 demo_funded = Inr (demo_funded\<lparr>maxWalletLimit := 50\<rparr>)
   \<and> setMaxTransactionLimit (tx_env 1 102) 50 bridge_deployed = Inr (bridge_deployed\<lparr>maxTransactionLimit := 50\<rparr>)
   \<and> setMaxWalletLimit (tx_env 1 102) 50 bridge_deployed = Inr (bridge_deployed\<lparr>maxWalletLimit := 50\<rparr>)"
proof -
  note ok = demo_setMax_ok [THEN not_reverts_commit]
  have 1: "setMaxTransactionLimit (tx_env 1 102) 50 demo_funded = Inr (demo_funded\<lparr>maxTransactionLimit := 50\<rparr>)"
    using ok(1) [of demo_funded] C8_limit_setters_frame [of "tx_env 1 102" 50 demo_funded] by metis
  have 2: "setMaxWalletLimit (tx_env 1 102) 50 demo_funded = Inr (demo_funded\<lparr>maxWalletLimit := 50\<rparr>)"
    using ok(2) [of demo_funded] C8_limit_setters_frame [of "tx_env 1 102" 50 demo_funded] by metis
  have 3: "setMaxTransactionLimit (tx_env 1 102) 50 bridge_deployed = Inr (bridge_deployed\<lparr>maxTransactionLimit := 50\<rparr>)"
    using ok(3) [of bridge_deployed] C8_limit_setters_frame [of "tx_env 1 102" 50 bridge_deployed] by metis
  have 4: "setMaxWalletLimit (tx_env 1 102) 50 bridge_deployed = Inr (bridge_deployed\<lparr>maxWalletLimit := 50\<rparr>)"
    using ok(4) [of bridge_deployed] C8_limit_setters_frame [of "tx_env 1 102" 50 bridge_deployed] by metis
  from 1 2 3 4 show ?thesis by blast
qed

subsection \<open>C9: the encryption round trip\<close>

text \<open>
  C9. Encryption with the wallet generator's \<^verbatim>\<open>encrypt\<close> followed by \<^verbatim>\<open>decrypt\<close> (the same
  function body in the generator, the distribution script and the simulation script) returns
  the data that was encrypted, for every password that is the hex form of 32 bytes, every
  16 random bytes drawn as initialization vector and every value that survives
  \<^verbatim>\<open>JSON.stringify\<close> followed by \<^verbatim>\<open>JSON.parse\<close>, provided the block decryption of the cipher
  inverts its block encryption under 32-byte keys (as AES-256 does).
\<close>

theorem C9_encrypt_decrypt_roundtrip:
  "(\<forall>k b. length k = 32 \<and> length b = 16 \<longrightarrow> length (E k b) = 16 \<and> D k (E k b) = b)
   \<and> parse (stringify data) = Some data
   \<and> length (hex_decode password) = 32 \<and> length random16 = 16 \<longrightarrow>
     (\<exists>r. encrypt E stringify random16 data password = Inr r
          \<and> decrypt D parse (encryptedData r) (iv r) password = Inr data)"
  using encrypt_decrypt [of E D parse stringify data password random16] by blast

theorem C9_encrypt_decrypt_roundtrip_witness:
  "length (hex_decode demo_password) = 32 \<and> length demo_iv = 16
   \<and> (\<exists>r. encrypt toy_cipher (\<lambda>d. d) demo_iv demo_wallets demo_password = Inr r
          \<and> decrypt toy_cipher Some (encryptedData r) (iv r) demo_password = Inr demo_wallets)"
proof -
  have k: "length (hex_decode demo_password) = 32" by (rule demo_password_key)
  have i: "length demo_iv = 16" by (simp add: demo_iv_def)
  have j: "Some ((\<lambda>d. d) demo_wallets) = Some demo_wallets" by simp
  show ?thesis
    using C9_encrypt_decrypt_roundtrip [of toy_cipher toy_cipher Some "\<lambda>d. d" demo_wallets
        demo_password demo_iv] toy_cipher_inverse k i j
    by blast
qed

subsection \<open>C10: paySecurityPenalty\<close>

text \<open>
  C10. In a state whose penaltyAmounts array is not empty (it has 17 entries from deployment
  on and no function writes it), paySecurityPenalty(tokenType) reverts if and only if the
  caller's failedAttempts is below 6, or paidPenalties is already true, or tokenType is
  not 0, 1 or 2, or the transferFrom of the selected penalty token does not return true
  (it returns false or reverts). A successful call changes only the caller's paidPenalties,
  to true, so any second call of the same caller on the resulting state reverts. A reverted
  call leaves the caller's UserSecurity record unchanged.
\<close>

theorem C10_paySecurityPenalty:
  "penaltyAmounts s \<noteq> [] \<and> length (penaltyAmounts s) < 2 ^ 256 \<longrightarrow>
     (reverts (Bridge_paySecurityPenalty e tokenType ext s) \<longleftrightarrow>
           failedAttempts (userSecurity s (msg_sender e)) < 6
         \<or> paidPenalties (userSecurity s (msg_sender e))
         \<or> tokenType \<notin> {0, 1, 2}
         \<or> (\<exists>tok amt. Bridge_penaltyQuote tokenType (userSecurity s (msg_sender e)) (penaltyAmounts s) = Inr (tok, amt)
                \<and> ext tok (msg_sender e) (feeCollectionAddress s) amt \<noteq> Returns True))
     \<and> (Bridge_paySecurityPenalty e tokenType ext s = Inr s' \<longrightarrow>
           s' = s\<lparr>userSecurity := (userSecurity s)(msg_sender e :=
                   (userSecurity s (msg_sender e))\<lparr>paidPenalties := True\<rparr>)\<rparr>
         \<and> paidPenalties (userSecurity s' (msg_sender e))
         \<and> (msg_sender e2 = msg_sender e \<longrightarrow> reverts (Bridge_paySecurityPenalty e2 tokenType2 ext2 s')))
     \<and> (reverts (Bridge_paySecurityPenalty e tokenType ext s) \<longrightarrow>
           userSecurity (commit s (Bridge_paySecurityPenalty e tokenType ext s)) (msg_sender e)
             = userSecurity s (msg_sender e))"
proof (intro impI, elim conjE)
  assume ne: "penaltyAmounts s \<noteq> []" and len: "length (penaltyAmounts s) < 2 ^ 256"
  have 1: "reverts (Bridge_paySecurityPenalty e tokenType ext s) \<longleftrightarrow>
           failedAttempts (userSecurity s (msg_sender e)) < 6
         \<or> paidPenalties (userSecurity s (msg_sender e))
         \<or> tokenType \<notin> {0, 1, 2}
         \<or> (\<exists>tok amt. Bridge_penaltyQuote tokenType (userSecurity s (msg_sender e)) (penaltyAmounts s) = Inr (tok, amt)
                \<and> ext tok (msg_sender e) (feeCollectionAddress s) amt \<noteq> Returns True)"
    by (rule paySecurityPenalty_reverts_iff [OF ne len])
  have 2: "Bridge_paySecurityPenalty e tokenType ext s = Inr s' \<longrightarrow>
           s' = s\<lparr>userSecurity := (userSecurity s)(msg_sender e :=
                   (userSecurity s (msg_sender e))\<lparr>paidPenalties := True\<rparr>)\<rparr>
         \<and> paidPenalties (userSecurity s' (msg_sender e))
         \<and> (msg_sender e2 = msg_sender e \<longrightarrow> reverts (Bridge_paySecurityPenalty e2 tokenType2 ext2 s'))"
  proof
    assume ok: "Bridge_paySecurityPenalty e tokenType ext s = Inr s'"
    from paySecurityPenalty_success [OF ok]
    have s': "s' = s\<lparr>userSecurity := (userSecurity s)(msg_sender e :=
                   (userSecurity s (msg_sender e))\<lparr>paidPenalties := True\<rparr>)\<rparr>" .
    then have p: "paidPenalties (userSecurity s' (msg_sender e))" by simp
    have "msg_sender e2 = msg_sender e \<longrightarrow> reverts (Bridge_paySecurityPenalty e2 tokenType2 ext2 s')"
      using p paySecurityPenalty_paid_reverts [of s' e2 tokenType2 ext2] by auto
    with s' p show "s' = s\<lparr>userSecurity := (userSecurity s)(msg_sender e :=
                   (userSecurity s (msg_sender e))\<lparr>paidPenalties := True\<rparr>)\<rparr>
         \<and> paidPenalties (userSecurity s' (msg_sender e))
         \<and> (msg_sender e2 = msg_sender e \<longrightarrow> reverts (Bridge_paySecurityPenalty e2 tokenType2 ext2 s'))"
      by blast
  qed
  have 3: "reverts (Bridge_paySecurityPenalty e tokenType ext s) \<longrightarrow>
           userSecurity (commit s (Bridge_paySecurityPenalty e tokenType ext s)) (msg_sender e)
             = userSecurity s (msg_sender e)"
    by (cases "Bridge_paySecurityPenalty e tokenType ext s") (simp_all add: reverts_def commit_def)
  from 1 2 3 show "(reverts (Bridge_paySecurityPenalty e tokenType ext s) \<longleftrightarrow>
           failedAttempts (userSecurity s (msg_sender e)) < 6
         \<or> paidPenalties (userSecurity s (msg_sender e))
         \<or> tokenType \<notin> {0, 1, 2}
         \<or> (\<exists>tok amt. Bridge_penaltyQuote tokenType (userSecurity s (msg_sender e)) (penaltyAmounts s) = Inr (tok, amt)
                \<and> ext tok (msg_sender e) (feeCollectionAddress s) amt \<noteq> Returns True))
     \<and> (Bridge_paySecurityPenalty e tokenType ext s = Inr s' \<longrightarrow>
           s' = s\<lparr>userSecurity := (userSecurity s)(msg_sender e :=
                   (userSecurity s (msg_sender e))\<lparr>paidPenalties := True\<rparr>)\<rparr>
         \<and> paidPenalties (userSecurity s' (msg_sender e))
         \<and> (msg_sender e2 = msg_sender e \<longrightarrow> reverts (Bridge_paySecurityPenalty e2 tokenType2 ext2 s')))
     \<and> (reverts (Bridge_paySecurityPenalty e tokenType ext s) \<longrightarrow>
           userSecurity (commit s (Bridge_paySecurityPenalty e tokenType ext s)) (msg_sender e)
             = userSecurity s (msg_sender e))"
    by blast
qed

theorem C10_paySecurityPenalty_witness:
  "penaltyAmounts bridge_locked \<noteq> [] \<and> length (penaltyAmounts bridge_locked) < 2 ^ 256
   \<and> Bridge_paySecurityPenalty (tx_env 2 300) 0 token_pays bridge_locked = Inr bridge_paid
   \<and> paidPenalties (userSecurity bridge_paid 2)
   \<and> reverts (Bridge_paySecurityPenalty (tx_env 2 301) 1 token_pays bridge_paid)
   \<and> reverts (Bridge_paySecurityPenalty (tx_env 2 300) 0 token_refuses bridge_locked)
   \<and> userSecurity (commit bridge_locked (Bridge_paySecurityPenalty (tx_env 2 300) 0 token_refuses bridge_locked)) 2
        = userSecurity bridge_locked 2
   \<and> reverts (Bridge_paySecurityPenalty (tx_env 2 300) 3 token_pays bridge_locked)
   \<and> reverts (Bridge_paySecurityPenalty (tx_env 3 300) 0 token_pays bridge_locked)"
proof -
  have h: "penaltyAmounts bridge_locked \<noteq> [] \<and> length (penaltyAmounts bridge_locked) < 2 ^ 256"
    by (simp add: bridge_locked_facts penaltyAmounts_initial_def)
  have m: "msg_sender (tx_env 2 300) = 2" "msg_sender (tx_env 2 301) = 2" "msg_sender (tx_env 3 300) = 3"
    by (simp_all add: tx_env_def)
  note P = C10_paySecurityPenalty [of bridge_locked "tx_env 2 300" 0 token_pays bridge_paid
      "tx_env 2 301" 1 token_pays]
  have "\<not> reverts (Bridge_paySecurityPenalty (tx_env 2 300) 0 token_pays bridge_locked)"
    using P h m by (simp add: bridge_locked_facts token_pays_def)
  then have ok: "Bridge_paySecurityPenalty (tx_env 2 300) 0 token_pays bridge_locked = Inr bridge_paid"
    unfolding bridge_paid_def by (rule not_reverts_commit)
  have paid: "paidPenalties (userSecurity bridge_paid 2)
      \<and> reverts (Bridge_paySecurityPenalty (tx_env 2 301) 1 token_pays bridge_paid)"
    using P h ok m by simp
  note R = C10_paySecurityPenalty [of bridge_locked "tx_env 2 300" 0 token_refuses]
  have refused: "reverts (Bridge_paySecurityPenalty (tx_env 2 300) 0 token_refuses bridge_locked)"
    using R h m bridge_locked_quote by (simp add: token_refuses_def)
  then have same: "userSecurity (commit bridge_locked
        (Bridge_paySecurityPenalty (tx_env 2 300) 0 token_refuses bridge_locked)) 2 = userSecurity bridge_locked 2"
    using R h m by simp
  have badtype: "reverts (Bridge_paySecurityPenalty (tx_env 2 300) 3 token_pays bridge_locked)"
    using C10_paySecurityPenalty [of bridge_locked "tx_env 2 300" 3 token_pays] h by simp
  have nofail: "reverts (Bridge_paySecurityPenalty (tx_env 3 300) 0 token_pays bridge_locked)"
    using C10_paySecurityPenalty [of bridge_locked "tx_env 3 300" 0 token_pays] h m
    by (simp add: bridge_locked_facts)
  from h ok paid refused same badtype nofail show ?thesis by blast
qed

end
